theory Spec2Isabelle
  imports
    Main
    "HOL-Library.Word"
    "HOL-Library.Char_ord"
    "HOL-Library.List_Lexorder"
    "HOL-Library.Product_Lexorder"
    "HOL-Library.Sublist"
begin

unbundle bit_operations_syntax

section \<open>Data model (internal/database/models.go, migrations.go)\<close>

text \<open>
  An instant is the integer number of nanoseconds since the Unix epoch; \<open>RFC3339\<close> cuts an
  instant to whole seconds, which is all that the text of \<open>Format(time.RFC3339)\<close> keeps
  of it.
\<close>

type_synonym timestamp = int

definition Second :: int where
  "Second = 1000000000"

definition Minute :: int where
  "Minute = 60 * Second"

definition RFC3339 :: "timestamp \<Rightarrow> timestamp" where
  "RFC3339 t = (t div Second) * Second"

definition zero_time :: timestamp where
  \<comment> \<open>\<open>time.Time{}\<close>: 1 January of year 1, 00:00:00 UTC\<close>
  "zero_time = - 62135596800 * Second"

definition IsZero :: "timestamp \<Rightarrow> bool" where
  "IsZero t \<longleftrightarrow> t = zero_time"

definition maxDuration :: int where
  "maxDuration = 2 ^ 63 - 1"

definition minDuration :: int where
  "minDuration = - (2 ^ 63)"

definition Sub :: "timestamp \<Rightarrow> timestamp \<Rightarrow> int" where
  \<comment> \<open>\<open>t.Sub(u)\<close>: a Duration in nanoseconds (int64), saturating at its bounds\<close>
  "Sub t u =
     (let d = t - u in
      if d > maxDuration then maxDuration
      else if d < minDuration then minDuration
      else d)"

text \<open>
  The release tables are ordered and compared by the database on the text of their
  DATETIME columns, and that text carries the zone offset of the \<open>time.Time\<close> it was
  formatted from. For these columns a \<open>time.Time\<close> is therefore modelled with its zone:
  the instant (\<open>UnixNano\<close>) and the offset of its location in seconds east of UTC.
\<close>

datatype Time = Time (UnixNano: timestamp) (Offset: int)

fun UTC :: "Time \<Rightarrow> Time" where
  "UTC (Time n z) = Time n 0"

definition ZeroTime :: Time where
  "ZeroTime = Time zero_time 0"

text \<open>
  \<open>Format_RFC3339\<close> is \<open>Format(time.RFC3339)\<close> of the Go standard library, layout
  \<open>2006-01-02T15:04:05Z07:00\<close>: the date and the clock of the proleptic Gregorian calendar
  at the offset of the time, then \<open>Z\<close> for the offset 0 and the signed hours and minutes
  of the offset otherwise. Numbers are written by \<open>appendInt\<close>: the sign, then the digits
  padded with zeros to the width of the field.
\<close>

function digits :: "int \<Rightarrow> string" where
  \<comment> \<open>the decimal digits of a number that is not negative\<close>
  "digits n =
     (if n < 10 then [''0123456789'' ! nat n]
      else digits (n div 10) @ [''0123456789'' ! nat (n mod 10)])"
  by pat_completeness auto

termination digits
  by (relation "measure nat") auto

definition appendInt :: "int \<Rightarrow> nat \<Rightarrow> string" where
  "appendInt x width =
     (if x < 0 then ''-'' else [])
     @ replicate (width - length (digits \<bar>x\<bar>)) CHR ''0'' @ digits \<bar>x\<bar>"

text \<open>
  The date of a day counted from 1 January 1970 (the years before year 1 are 0, -1, ...),
  computed through the day of the 400-year era, the year of the era, the day of the year
  counted from 1 March, and the month counted from March.
\<close>

definition date_of_month :: "int \<Rightarrow> int \<Rightarrow> int \<Rightarrow> int \<times> int \<times> int" where
  "date_of_month y doy mp =
     (if mp < 10 then y else y + 1, if mp < 10 then mp + 3 else mp - 9,
      doy - (153 * mp + 2) div 5 + 1)"

definition date_of_year :: "int \<Rightarrow> int \<Rightarrow> int \<Rightarrow> int \<times> int \<times> int" where
  "date_of_year era doe yoe =
     date_of_month (yoe + era * 400) (doe - (365 * yoe + yoe div 4 - yoe div 100))
       ((5 * (doe - (365 * yoe + yoe div 4 - yoe div 100)) + 2) div 153)"

definition date_of_era :: "int \<Rightarrow> int \<Rightarrow> int \<times> int \<times> int" where
  "date_of_era era doe =
     date_of_year era doe ((doe - doe div 1460 + doe div 36524 - doe div 146096) div 365)"

definition civil :: "int \<Rightarrow> int \<times> int \<times> int" where
  \<comment> \<open>(year, month, day)\<close>
  "civil z = date_of_era ((z + 719468) div 146097) ((z + 719468) mod 146097)"

fun date_text :: "int \<times> int \<times> int \<Rightarrow> string" where
  "date_text (year, month, day) = appendInt year 4 @ ''-'' @ appendInt month 2 @ ''-'' @ appendInt day 2"

definition clock_text :: "int \<Rightarrow> string" where
  \<comment> \<open>hours, minutes and seconds of the second of the day\<close>
  "clock_text s =
     appendInt (s div 3600) 2 @ '':'' @ appendInt (s mod 3600 div 60) 2 @ '':'' @ appendInt (s mod 60) 2"

definition zone_text :: "int \<Rightarrow> string" where
  \<comment> \<open>layout element \<open>Z07:00\<close>; the offset is cut to whole minutes towards zero\<close>
  "zone_text offset =
     (if offset = 0 then ''Z''
      else (if offset \<le> - 60 then ''-'' else ''+'')
           @ appendInt (\<bar>offset\<bar> div 60 div 60) 2 @ '':'' @ appendInt (\<bar>offset\<bar> div 60 mod 60) 2)"

fun Format_RFC3339 :: "Time \<Rightarrow> string" where
  "Format_RFC3339 (Time n z) =
     date_text (civil ((n div Second + z) div 86400)) @ ''T''
     @ clock_text ((n div Second + z) mod 86400) @ zone_text z"

text \<open>
  A DATETIME cell of the release tables holds the text \<open>Format_RFC3339 t\<close>. The model keeps
  the time that this text denotes, \<open>Stored t\<close> (whole seconds, the same offset), which is
  what \<open>Scan\<close> hands back to the program; every SQL comparison and ordering of a cell is
  made on its text. (A zone offset is a whole number of minutes for every clock reading and
  every JSON input; the text does not keep more.)
\<close>

fun Stored :: "Time \<Rightarrow> Time" where
  "Stored (Time n z) = Time (RFC3339 n) z"

record Release =
  ID :: int
  Namespace :: string
  WorkloadName :: string
  WorkloadType :: string
  ContainerName :: string
  ImageRepo :: string
  ImageName :: string
  ImageTag :: string
  ImageSHA :: string
  ClientName :: string
  EnvName :: string
  FirstSeen :: Time
  LastSeen :: Time
  CreatedAt :: Time
  UpdatedAt :: Time

text \<open>\<open>PendingRelease\<close> is declared in Go with exactly the fields of \<open>Release\<close>.\<close>

type_synonym PendingRelease = Release

definition last_seen :: "Release \<Rightarrow> string" where
  \<comment> \<open>the column last_seen as the database holds and compares it\<close>
  "last_seen r = Format_RFC3339 (LastSeen r)"

definition created_at :: "Release \<Rightarrow> string" where
  "created_at r = Format_RFC3339 (CreatedAt r)"

definition updated_at :: "Release \<Rightarrow> string" where
  "updated_at r = Format_RFC3339 (UpdatedAt r)"

record CurrentRelease =
  cNamespace :: string
  cWorkloadName :: string
  cWorkloadType :: string
  cContainerName :: string
  cImageRepo :: string
  cImageName :: string
  cImageTag :: string
  cImageSHA :: string
  cClientName :: string
  cEnvName :: string
  cLastSeen :: Time

text \<open>
  The heartbeat table is only read back through \<open>Scan\<close> into a \<open>time.Time\<close> and compared
  with the clock by \<open>Sub\<close>; its times are modelled by their instants.
\<close>

record SlavePing =
  spID :: int
  spClientName :: string
  spEnvName :: string
  spLastPingTime :: timestamp
  spStatus :: string
  spSlaveVersion :: string
  spCreatedAt :: timestamp
  spUpdatedAt :: timestamp

text \<open>
  The SQLite database: the three tables in rowid order, the AUTOINCREMENT counter of each,
  and the state of the connection. \<open>conn_err = Some msg\<close> means that the store is
  unreachable and that the driver answers every call with the error text \<open>msg\<close>.
  A Go \<open>error\<close> is modelled by its message, the only thing the program reads from it.
\<close>

type_synonym error = string

record DB =
  conn_err :: "string option"
  releases :: "Release list"
  releases_seq :: int
  pending_releases :: "PendingRelease list"
  pending_seq :: int
  slave_pings :: "SlavePing list"
  pings_seq :: int

definition empty_db :: DB where
  "empty_db = \<lparr>conn_err = None, releases = [], releases_seq = 0,
                pending_releases = [], pending_seq = 0, slave_pings = [], pings_seq = 0\<rparr>"

section \<open>API key classifier (handlers: parseAPIKey, validateAPIKeyAccess, isValidAPIKey)\<close>

fun Split :: "string \<Rightarrow> char \<Rightarrow> string list" where
  \<comment> \<open>\<open>strings.Split(s, sep)\<close> for a one-byte separator: n separators give n + 1 parts\<close>
  "Split [] sep = [[]]"
| "Split (c # cs) sep =
     (if c = sep then [] # Split cs sep
      else (case Split cs sep of [] \<Rightarrow> [[c]] | p # ps \<Rightarrow> (c # p) # ps))"

definition parseAPIKey :: "string \<Rightarrow> string \<times> string \<times> bool" where
  \<comment> \<open>returns (clientName, clientAuth, isAdmin)\<close>
  "parseAPIKey apiKey =
     (let parts = Split apiKey CHR ''-'' in
      if length parts = 2 \<and> parts ! 0 \<noteq> [] \<and> parts ! 1 \<noteq> []
      then (parts ! 0, parts ! 1, False)
      else ([], apiKey, True))"

definition byte :: "char \<Rightarrow> 8 word" where
  "byte c = word_of_nat (of_char c)"

fun xor_accumulate :: "8 word \<Rightarrow> string \<Rightarrow> string \<Rightarrow> 8 word" where
  \<comment> \<open>the loop of \<open>subtle.ConstantTimeCompare\<close>: \<open>v |= x[i] ^ y[i]\<close> for every index\<close>
  "xor_accumulate v (a # x) (b # y) = xor_accumulate (v OR (byte a XOR byte b)) x y"
| "xor_accumulate v _ _ = v"

definition ConstantTimeCompare :: "string \<Rightarrow> string \<Rightarrow> int" where
  \<comment> \<open>Go standard library \<open>crypto/subtle\<close>: 1 if the byte strings are equal, else 0\<close>
  "ConstantTimeCompare x y =
     (if length x \<noteq> length y then 0
      else if xor_accumulate 0 x y = 0 then 1 else 0)"

fun isValidAPIKey :: "string list \<Rightarrow> string \<Rightarrow> bool" where
  "isValidAPIKey [] providedKey = False"
| "isValidAPIKey (validKey # rest) providedKey =
     (if length providedKey = length validKey \<and> ConstantTimeCompare providedKey validKey = 1
      then True
      else isValidAPIKey rest providedKey)"

definition validateAPIKeyAccess :: "string list \<Rightarrow> string \<Rightarrow> string \<Rightarrow> bool \<Rightarrow> bool" where
  "validateAPIKeyAccess apiKeys clientName clientAuth isAdmin =
     (if isAdmin then isValidAPIKey apiKeys clientAuth
      else isValidAPIKey apiKeys (clientName @ ''-'' @ clientAuth))"

definition tenant_shape :: "string \<Rightarrow> string \<Rightarrow> string \<Rightarrow> bool" where
  \<comment> \<open>the credential consists of exactly two non-empty segments \<open>t\<close> and \<open>s\<close> around one separator\<close>
  "tenant_shape k t s \<longleftrightarrow>
     t \<noteq> [] \<and> s \<noteq> [] \<and> CHR ''-'' \<notin> set t \<and> CHR ''-'' \<notin> set s \<and> k = t @ ''-'' @ s"

section \<open>Release ledger: writes (internal/database/sqlite.go)\<close>

definition conflict_key :: "Release \<Rightarrow> string \<times> string \<times> string \<times> string \<times> string \<times> string" where
  \<comment> \<open>UNIQUE(namespace, workload_name, container_name, client_name, env_name, image_sha)\<close>
  "conflict_key r =
     (Namespace r, WorkloadName r, ContainerName r, ClientName r, EnvName r, ImageSHA r)"

definition stored_row :: "int \<Rightarrow> Time \<Rightarrow> Release \<Rightarrow> Release" where
  \<comment> \<open>the row written by the INSERT: the next rowid, all times as RFC 3339 text\<close>
  "stored_row rowid now release =
     release\<lparr>ID := rowid,
              FirstSeen := Stored (FirstSeen release),
              LastSeen := Stored (LastSeen release),
              CreatedAt := now, UpdatedAt := now\<rparr>"

definition do_update :: "Time \<Rightarrow> Release \<Rightarrow> Release \<Rightarrow> Release" where
  \<comment> \<open>ON CONFLICT ... DO UPDATE SET last_seen = ?, updated_at = ?\<close>
  "do_update now release row =
     (if conflict_key row = conflict_key release
      then row\<lparr>LastSeen := Stored (LastSeen release), UpdatedAt := now\<rparr>
      else row)"

definition upsert_rows :: "int \<Rightarrow> Time \<Rightarrow> Release \<Rightarrow> Release list \<Rightarrow> Release list" where
  "upsert_rows seq now release rows =
     (if conflict_key release \<in> set (map conflict_key rows)
      then map (do_update now release) rows
      else rows @ [stored_row (seq + 1) now release])"

definition upsert_seq :: "int \<Rightarrow> Release \<Rightarrow> Release list \<Rightarrow> int" where
  "upsert_seq seq release rows =
     (if conflict_key release \<in> set (map conflict_key rows) then seq else seq + 1)"

definition UpsertRelease :: "Time \<Rightarrow> Release \<Rightarrow> DB \<Rightarrow> error + DB" where
  \<comment> \<open>\<open>time_now\<close> is the reading of \<open>time.Now()\<close>, in the zone of the process\<close>
  "UpsertRelease time_now release db =
     (case conn_err db of
        Some msg \<Rightarrow> Inl msg
      | None \<Rightarrow>
          Inr (db\<lparr>releases := upsert_rows (releases_seq db) (Stored time_now) release (releases db),
                  releases_seq := upsert_seq (releases_seq db) release (releases db)\<rparr>))"

definition UpsertPendingRelease :: "Time \<Rightarrow> PendingRelease \<Rightarrow> DB \<Rightarrow> error + DB" where
  "UpsertPendingRelease time_now release db =
     (case conn_err db of
        Some msg \<Rightarrow> Inl msg
      | None \<Rightarrow>
          Inr (db\<lparr>pending_releases :=
                    upsert_rows (pending_seq db) (Stored time_now) release (pending_releases db),
                  pending_seq := upsert_seq (pending_seq db) release (pending_releases db)\<rparr>))"

definition partition_key :: "Release \<Rightarrow> string \<times> string \<times> string" where
  \<comment> \<open>PARTITION BY namespace, workload_name, container_name\<close>
  "partition_key r = (Namespace r, WorkloadName r, ContainerName r)"

text \<open>
  \<open>ORDER BY last_seen DESC\<close> sorts by the text of the column, bytewise, greatest first.
  SQL leaves the order of rows with equal text to the engine: \<open>newest_first\<close> keeps such
  rows in the order of its input, and the statements below take as a parameter the order
  \<open>visit\<close> in which the engine reads the table before it sorts (the rowid order, or the
  order of an index such as \<open>idx_releases_component\<close>).
\<close>

definition newest_first :: "Release list \<Rightarrow> Release list" where
  "newest_first rows = rev (sort_key last_seen (rev rows))"


definition by_idx_releases_component :: "Release list \<Rightarrow> Release list" where
  \<comment> \<open>the table read through the index on (namespace, workload_name, container_name,
      client_name, env_name); equal entries in rowid order\<close>
  "by_idx_releases_component rows =
     sort_key (\<lambda>r. (Namespace r, WorkloadName r, ContainerName r, ClientName r, EnvName r)) rows"

definition ranked_ids :: "(Release list \<Rightarrow> Release list) \<Rightarrow> Release list \<Rightarrow> int list" where
  \<comment> \<open>SELECT id FROM (... ROW_NUMBER() OVER (PARTITION BY ... ORDER BY ...) as rn ...) WHERE rn <= 10\<close>
  "ranked_ids visit rows =
     concat (map (\<lambda>p. map ID (take 10 (newest_first (filter (\<lambda>r. partition_key r = p) (visit rows)))))
                 (remdups (map partition_key rows)))"

definition CleanupOldReleases :: "(Release list \<Rightarrow> Release list) \<Rightarrow> DB \<Rightarrow> error + DB" where
  \<comment> \<open>DELETE FROM releases WHERE id NOT IN (ranked ids)\<close>
  "CleanupOldReleases visit db =
     (case conn_err db of
        Some msg \<Rightarrow> Inl msg
      | None \<Rightarrow>
          Inr (db\<lparr>releases := filter (\<lambda>r. ID r \<in> set (ranked_ids visit (releases db))) (releases db)\<rparr>))"

text \<open>
  The retention rule as the specification words it, for comparison: grouped by component
  (namespace, workload kind, workload name, container name) and tenant (client,
  environment), a fact survives when fewer than ten facts of its group were observed
  later. \<open>last_observed_at\<close> is the instant that the stored last_seen denotes.
\<close>

definition spec_group_key ::
  "Release \<Rightarrow> string \<times> string \<times> string \<times> string \<times> string \<times> string" where
  "spec_group_key r =
     (Namespace r, WorkloadType r, WorkloadName r, ContainerName r, ClientName r, EnvName r)"

definition last_observed_at :: "Release \<Rightarrow> timestamp" where
  "last_observed_at r = RFC3339 (UnixNano (LastSeen r))"

definition spec_Retention :: "Release list \<Rightarrow> Release list" where
  "spec_Retention rows =
     filter (\<lambda>r. length (filter (\<lambda>r'. spec_group_key r' = spec_group_key r
                                    \<and> last_observed_at r < last_observed_at r') rows) < 10) rows"

section \<open>Release ledger: reads (internal/database/sqlite.go)\<close>

definition Ping :: "DB \<Rightarrow> error option" where
  "Ping db = conn_err db"

definition same_component :: "Release \<Rightarrow> Release \<Rightarrow> bool" where
  \<comment> \<open>the WHERE clause of the correlated subquery: \<open>r2\<close> lies in the group of \<open>r1\<close>\<close>
  "same_component r2 r1 \<longleftrightarrow>
     Namespace r2 = Namespace r1 \<and> WorkloadName r2 = WorkloadName r1 \<and>
     ContainerName r2 = ContainerName r1 \<and> ClientName r2 = ClientName r1 \<and>
     EnvName r2 = EnvName r1"

fun sql_MAX :: "string list \<Rightarrow> string option" where
  \<comment> \<open>the aggregate MAX over a text column, bytewise: NULL over no rows\<close>
  "sql_MAX [] = None"
| "sql_MAX (t # ts) = Some (fold max ts t)"

definition toCurrentRelease :: "Release \<Rightarrow> CurrentRelease" where
  \<comment> \<open>the eleven selected columns\<close>
  "toCurrentRelease r =
     \<lparr>cNamespace = Namespace r, cWorkloadName = WorkloadName r, cWorkloadType = WorkloadType r,
      cContainerName = ContainerName r, cImageRepo = ImageRepo r, cImageName = ImageName r,
      cImageTag = ImageTag r, cImageSHA = ImageSHA r, cClientName = ClientName r,
      cEnvName = EnvName r, cLastSeen = LastSeen r\<rparr>"

definition order_by_component :: "CurrentRelease list \<Rightarrow> CurrentRelease list" where
  \<comment> \<open>ORDER BY namespace, workload_name, container_name (bytewise)\<close>
  "order_by_component rs = sort_key (\<lambda>c. (cNamespace c, cWorkloadName c, cContainerName c)) rs"

definition GetCurrentReleases :: "DB \<Rightarrow> error + CurrentRelease list" where
  "GetCurrentReleases db =
     (case Ping db of
        Some msg \<Rightarrow> Inl (''database connection lost: '' @ msg)
      | None \<Rightarrow>
          Inr (order_by_component (remdups (map toCurrentRelease
            (filter (\<lambda>r1. Some (last_seen r1) =
                       sql_MAX (map last_seen (filter (\<lambda>r2. same_component r2 r1 \<and> length (ImageSHA r2) > 0)
                                                     (releases db))))
                    (releases db))))))"

definition GetCurrentReleasesFiltered :: "DB \<Rightarrow> string \<Rightarrow> string \<Rightarrow> error + CurrentRelease list" where
  "GetCurrentReleasesFiltered db clientName envName =
     (case Ping db of
        Some msg \<Rightarrow> Inl (''database connection lost: '' @ msg)
      | None \<Rightarrow>
          Inr (order_by_component (remdups (map toCurrentRelease
            (filter (\<lambda>r1. Some (last_seen r1) =
                       sql_MAX (map last_seen (filter (\<lambda>r2. same_component r2 r1) (releases db)))
                     \<and> (clientName = [] \<or> ClientName r1 = clientName)
                     \<and> (envName = [] \<or> EnvName r1 = envName))
                    (releases db))))))"

fun join_space :: "string list \<Rightarrow> string" where
  \<comment> \<open>the elements of a slice as \<open>%v\<close> prints them, without the brackets\<close>
  "join_space [] = []"
| "join_space [x] = x"
| "join_space (x # y # ys) = x @ '' '' @ join_space (y # ys)"

definition multiple_found_error :: "string \<Rightarrow> string \<Rightarrow> string \<Rightarrow> string list \<Rightarrow> error" where
  \<comment> \<open>\<open>fmt.Errorf("multiple releases found for %s/%s/%s in namespaces: %v", ...)\<close>\<close>
  "multiple_found_error workloadType workloadName containerName namespaces =
     ''multiple releases found for '' @ workloadType @ ''/'' @ workloadName @ ''/'' @ containerName
       @ '' in namespaces: '' @ ''['' @ join_space namespaces @ '']''"

definition current_by_workload_rows ::
  "DB \<Rightarrow> string \<Rightarrow> string \<Rightarrow> string \<Rightarrow> string \<Rightarrow> string \<Rightarrow> CurrentRelease list" where
  \<comment> \<open>the rows of the SELECT DISTINCT of \<open>GetCurrentReleaseByWorkload\<close>\<close>
  "current_by_workload_rows db workloadType workloadName containerName clientName envName =
     order_by_component (remdups (map toCurrentRelease
       (filter (\<lambda>r1. WorkloadType r1 = workloadType \<and> WorkloadName r1 = workloadName
                  \<and> ContainerName r1 = containerName
                  \<and> ClientName r1 = clientName \<and> EnvName r1 = envName
                  \<and> Some (last_seen r1) =
                      sql_MAX (map last_seen (filter (\<lambda>r2. same_component r2 r1) (releases db))))
               (releases db))))"

definition GetCurrentReleaseByWorkload ::
  "DB \<Rightarrow> string \<Rightarrow> string \<Rightarrow> string \<Rightarrow> string \<Rightarrow> string \<Rightarrow> error + CurrentRelease option" where
  \<comment> \<open>\<open>Inr None\<close> is the Go result \<open>(nil, nil)\<close>\<close>
  "GetCurrentReleaseByWorkload db workloadType workloadName containerName clientName envName =
     (case Ping db of
        Some msg \<Rightarrow> Inl (''database connection lost: '' @ msg)
      | None \<Rightarrow>
          (let found = current_by_workload_rows db workloadType workloadName containerName
                         clientName envName
           in if length found = 0 then Inr None
              else if length found > 1
              then Inl (multiple_found_error workloadType workloadName containerName
                          (map cNamespace found))
              else Inr (Some (found ! 0))))"

record ReleaseHistory =
  Releases :: "Release list"
  Total :: nat

definition GetReleaseHistory ::
  "(Release list \<Rightarrow> Release list) \<Rightarrow> DB \<Rightarrow> string \<Rightarrow> string \<Rightarrow> string \<Rightarrow> string \<Rightarrow> string
     \<Rightarrow> error + ReleaseHistory" where
  \<comment> \<open>ORDER BY last_seen DESC LIMIT 10\<close>
  "GetReleaseHistory visit db namespace workloadName containerName clientName envName =
     (case conn_err db of
        Some msg \<Rightarrow> Inl msg
      | None \<Rightarrow>
          (let found = take 10 (newest_first
                 (filter (\<lambda>r. Namespace r = namespace \<and> WorkloadName r = workloadName
                            \<and> ContainerName r = containerName
                            \<and> ClientName r = clientName \<and> EnvName r = envName)
                         (visit (releases db))))
           in Inr \<lparr>Releases = found, Total = length found\<rparr>))"

text \<open>
  \<open>GetLastClientEnvUpdate\<close> reads MAX(updated_at) as text and hands it to \<open>time.Parse\<close>,
  first with the RFC 3339 layout, then with a second layout. \<open>time.Parse\<close> belongs to the
  Go standard library and enters as the parameter \<open>Parse\<close> (layout, then value).
\<close>

definition layout_RFC3339 :: string where
  "layout_RFC3339 = ''2006-01-02T15:04:05Z07:00''"

definition GetLastClientEnvUpdate ::
  "(string \<Rightarrow> string \<Rightarrow> error + Time) \<Rightarrow> DB \<Rightarrow> string \<Rightarrow> string \<Rightarrow> error + Time" where
  "GetLastClientEnvUpdate Parse db clientName envName =
     (case conn_err db of
        Some msg \<Rightarrow>
          Inl (''failed to query last update for '' @ clientName @ ''/'' @ envName @ '': '' @ msg)
      | None \<Rightarrow>
          (case sql_MAX (map updated_at
                   (filter (\<lambda>r. ClientName r = clientName \<and> EnvName r = envName) (releases db))) of
             None \<Rightarrow> Inr ZeroTime
           | Some lastUpdateStr \<Rightarrow>
               if lastUpdateStr = [] then Inr ZeroTime
               else
                 (case Parse layout_RFC3339 lastUpdateStr of
                    Inr lastUpdate \<Rightarrow> Inr lastUpdate
                  | Inl err1 \<Rightarrow>
                      (case Parse ''2006-01-02 15:04:05+00:00'' lastUpdateStr of
                         Inr lastUpdate \<Rightarrow> Inr lastUpdate
                       | Inl err \<Rightarrow>
                           Inl (''failed to parse time string '' @ [CHR 0x27] @ lastUpdateStr
                                  @ [CHR 0x27] @ '': '' @ err)))))"



text \<open>
  The lookup as the specification words it, for comparison. The latest-timestamp facts of
  a query (kind, workload name, container name, tenant) are the facts of that kind, names
  and tenant with the greatest last_observed_at of their (component, tenant) group, the
  component including the workload kind. None gives NotFound, facts in more than one
  namespace give AmbiguousMatch, exactly one fact is the result.
\<close>

definition spec_latest ::
  "Release list \<Rightarrow> string \<Rightarrow> string \<Rightarrow> string \<Rightarrow> string \<Rightarrow> string \<Rightarrow> Release list" where
  "spec_latest rows kind workloadName containerName clientName envName =
     filter (\<lambda>r. WorkloadType r = kind \<and> WorkloadName r = workloadName
               \<and> ContainerName r = containerName \<and> ClientName r = clientName \<and> EnvName r = envName
               \<and> list_all (\<lambda>r'. spec_group_key r' = spec_group_key r
                                  \<longrightarrow> last_observed_at r' \<le> last_observed_at r) rows)
            rows"

datatype Resolution = NotFound | Found CurrentRelease | AmbiguousMatch | Unspecified

definition spec_ResolveByName ::
  "Release list \<Rightarrow> string \<Rightarrow> string \<Rightarrow> string \<Rightarrow> string \<Rightarrow> string \<Rightarrow> Resolution" where
  \<comment> \<open>the specification says nothing on several latest facts within one namespace\<close>
  "spec_ResolveByName rows kind workloadName containerName clientName envName =
     (case remdups (map toCurrentRelease
              (spec_latest rows kind workloadName containerName clientName envName)) of
        [] \<Rightarrow> NotFound
      | [c] \<Rightarrow> Found c
      | c # cs \<Rightarrow> if length (remdups (map cNamespace (c # cs))) > 1 then AmbiguousMatch
                  else Unspecified)"

section \<open>Badges (internal/api/badges.go, handlers.go)\<close>

record BadgeColor =
  Left :: string
  Right :: string

definition BadgeColorSuccess :: BadgeColor where
  "BadgeColorSuccess = \<lparr>Left = ''#555'', Right = ''#4c1''\<rparr>"

definition BadgeColorError :: BadgeColor where
  "BadgeColorError = \<lparr>Left = ''#555'', Right = ''#e05d44''\<rparr>"

definition BadgeColorWarning :: BadgeColor where
  "BadgeColorWarning = \<lparr>Left = ''#555'', Right = ''#dfb317''\<rparr>"

definition BadgeColorGray :: BadgeColor where
  "BadgeColorGray = \<lparr>Left = ''#555'', Right = ''#9f9f9f''\<rparr>"

text \<open>
  A badge is modelled by the \<open>BadgeOptions\<close> handed to \<open>GenerateSVGBadge\<close>; the SVG text
  drawn from them is not modelled.
\<close>

record BadgeOptions =
  Label :: string
  Value :: string
  Color :: BadgeColor

definition CreateSuccessBadge :: "string \<Rightarrow> string \<Rightarrow> BadgeOptions" where
  "CreateSuccessBadge envName version =
     \<lparr>Label = envName, Value = version, Color = BadgeColorSuccess\<rparr>"

definition CreateErrorBadge :: "string \<Rightarrow> string \<Rightarrow> BadgeOptions" where
  "CreateErrorBadge envName message =
     \<lparr>Label = envName, Value = message, Color = BadgeColorError\<rparr>"

definition CreateNotFoundBadge :: "string \<Rightarrow> BadgeOptions" where
  "CreateNotFoundBadge envName =
     \<lparr>Label = envName, Value = ''not deployed'', Color = BadgeColorGray\<rparr>"

definition CreateMultipleFoundBadge :: "string \<Rightarrow> BadgeOptions" where
  "CreateMultipleFoundBadge envName =
     \<lparr>Label = envName, Value = ''multiple found'', Color = BadgeColorWarning\<rparr>"

definition Contains :: "string \<Rightarrow> string \<Rightarrow> bool" where
  \<comment> \<open>\<open>strings.Contains(s, substr)\<close>\<close>
  "Contains s substr \<longleftrightarrow> sublist substr s"

definition handleBadgeCore ::
  "DB \<Rightarrow> string \<Rightarrow> string \<Rightarrow> string \<Rightarrow> string \<Rightarrow> string \<Rightarrow> BadgeOptions" where
  "handleBadgeCore db workloadKind workloadName container clientName envName =
     (if workloadKind = [] \<or> workloadName = [] \<or> container = [] \<or> clientName = [] \<or> envName = []
      then CreateErrorBadge envName ''invalid request''
      else
        (case GetCurrentReleaseByWorkload db workloadKind workloadName container clientName envName of
           Inl err \<Rightarrow>
             if Contains err ''multiple releases found''
             then CreateMultipleFoundBadge envName
             else CreateErrorBadge envName ''query error''
         | Inr None \<Rightarrow> CreateNotFoundBadge envName
         | Inr (Some release) \<Rightarrow> CreateSuccessBadge envName (cImageTag release)))"

definition handleBadgeWithAuth ::
  "string list \<Rightarrow> DB \<Rightarrow> string \<Rightarrow> string \<Rightarrow> string \<Rightarrow> string \<Rightarrow> string \<Rightarrow> string \<Rightarrow> BadgeOptions" where
  \<comment> \<open>the path variables api-key, client, env, workload-kind, workload-name, container\<close>
  "handleBadgeWithAuth apiKeys db apiKey requestedClientName envName workloadKind workloadName container =
     (if length apiKeys > 0 then
        (if apiKey = [] then CreateErrorBadge envName ''unauthorized''
         else
           (case parseAPIKey apiKey of (authenticatedClientName, clientAuth, isAdmin) \<Rightarrow>
              if \<not> validateAPIKeyAccess apiKeys authenticatedClientName clientAuth isAdmin
              then CreateErrorBadge envName ''unauthorized''
              else if \<not> isAdmin \<and> authenticatedClientName \<noteq> requestedClientName
              then CreateErrorBadge envName ''access denied''
              else handleBadgeCore db workloadKind workloadName container requestedClientName envName))
      else handleBadgeCore db workloadKind workloadName container requestedClientName envName)"

section \<open>HTTP layer: credentials and access control (handlers)\<close>

text \<open>
  A request as the handlers read it: header values, the query values as
  \<open>r.URL.Query()\<close> returns them (percent-decoded once), and the path variables of the
  router. \<open>Get\<close> returns the empty string for an absent key.
\<close>

record Request =
  Header :: "string \<rightharpoonup> string"
  Query :: "string \<rightharpoonup> string"
  Vars :: "string \<rightharpoonup> string"

definition Get :: "(string \<rightharpoonup> string) \<Rightarrow> string \<Rightarrow> string" where
  "Get m k = (case m k of None \<Rightarrow> [] | Some v \<Rightarrow> v)"

definition ishex :: "char \<Rightarrow> bool" where
  "ishex c \<longleftrightarrow>
     (48 \<le> (of_char c :: nat) \<and> (of_char c :: nat) \<le> 57) \<or>
     (97 \<le> (of_char c :: nat) \<and> (of_char c :: nat) \<le> 102) \<or>
     (65 \<le> (of_char c :: nat) \<and> (of_char c :: nat) \<le> 70)"

definition unhex :: "char \<Rightarrow> nat" where
  "unhex c =
     (if 48 \<le> (of_char c :: nat) \<and> (of_char c :: nat) \<le> 57 then of_char c - 48
      else if 97 \<le> (of_char c :: nat) \<and> (of_char c :: nat) \<le> 102 then of_char c - 97 + 10
      else if 65 \<le> (of_char c :: nat) \<and> (of_char c :: nat) \<le> 70 then of_char c - 65 + 10
      else 0)"

fun QueryUnescape :: "string \<Rightarrow> string option" where
  \<comment> \<open>Go standard library \<open>net/url\<close>: \<open>%XY\<close> becomes the byte XY, \<open>+\<close> a space; \<open>None\<close> is
      the EscapeError for a \<open>%\<close> that two hexadecimal digits do not follow\<close>
  "QueryUnescape [] = Some []"
| "QueryUnescape (c # cs) =
     (if c = CHR ''%'' then
        (case cs of
           a # b # rest \<Rightarrow>
             if ishex a \<and> ishex b
             then map_option ((#) (char_of (unhex a * 16 + unhex b))) (QueryUnescape rest)
             else None
         | _ \<Rightarrow> None)
      else if c = CHR ''+'' then map_option ((#) CHR '' '') (QueryUnescape cs)
      else map_option ((#) c) (QueryUnescape cs))"

definition HasPrefix :: "string \<Rightarrow> string \<Rightarrow> bool" where
  "HasPrefix s p \<longleftrightarrow> take (length p) s = p"

definition TrimPrefix :: "string \<Rightarrow> string \<Rightarrow> string" where
  "TrimPrefix s p = (if HasPrefix s p then drop (length p) s else s)"

definition extractAPIKey :: "Request \<Rightarrow> string" where
  "extractAPIKey r =
     (let auth = Get (Header r) ''Authorization'' in
      if auth \<noteq> [] \<and> HasPrefix auth ''Bearer '' then TrimPrefix auth ''Bearer ''
      else
        (let apiKey = Get (Header r) ''X-API-Key'' in
         if apiKey \<noteq> [] then apiKey
         else
           (let apiKey = Get (Query r) ''apikey'' in
            if apiKey \<noteq> [] then
              (case QueryUnescape apiKey of Some decoded \<Rightarrow> decoded | None \<Rightarrow> apiKey)
            else [])))"

datatype 'a Response = HttpError nat string | HttpOK 'a

definition StatusBadRequest :: nat where "StatusBadRequest = 400"
definition StatusUnauthorized :: nat where "StatusUnauthorized = 401"
definition StatusForbidden :: nat where "StatusForbidden = 403"
definition StatusInternalServerError :: nat where "StatusInternalServerError = 500"

definition authMiddleware ::
  "string list \<Rightarrow> (Request \<Rightarrow> DB \<Rightarrow> 'a Response \<times> DB) \<Rightarrow> Request \<Rightarrow> DB \<Rightarrow> 'a Response \<times> DB" where
  "authMiddleware apiKeys next r db =
     (let apiKey = extractAPIKey r in
      if apiKey = [] then (HttpError StatusUnauthorized ''Missing API key'', db)
      else
        (case parseAPIKey apiKey of (clientName, clientAuth, isAdmin) \<Rightarrow>
           if \<not> validateAPIKeyAccess apiKeys clientName clientAuth isAdmin
           then (HttpError StatusUnauthorized ''Invalid API key'', db)
           else
             (let h1 = (if \<not> isAdmin \<and> clientName \<noteq> []
                        then (Header r)(''X-Client-Name'' \<mapsto> clientName) else Header r);
                  h2 = h1(''X-Is-Admin'' \<mapsto> (if isAdmin then ''true'' else ''false''))
              in next (r\<lparr>Header := h2\<rparr>) db)))"

definition api_route ::
  "string list \<Rightarrow> (Request \<Rightarrow> DB \<Rightarrow> 'a Response \<times> DB) \<Rightarrow> Request \<Rightarrow> DB \<Rightarrow> 'a Response \<times> DB" where
  \<comment> \<open>setupRoutes: the middleware guards the /api routes when API keys are configured\<close>
  "api_route apiKeys handler r db =
     (if length apiKeys > 0 then authMiddleware apiKeys handler r db else handler r db)"

definition getClientAccessFromRequest :: "Request \<Rightarrow> string \<times> bool" where
  "getClientAccessFromRequest r =
     (let isAdmin = (Get (Header r) ''X-Is-Admin'' = ''true'') in
      (if \<not> isAdmin then Get (Header r) ''X-Client-Name'' else [], isAdmin))"

definition access_denied_message :: "string \<Rightarrow> string" where
  "access_denied_message requestedClientName =
     ''Access denied: API key is not authorized for client '' @ [CHR 0x27] @ requestedClientName
       @ [CHR 0x27]"

record CurrentReleasesBody =
  body_releases :: "CurrentRelease list"
  body_total :: nat
  body_timestamp :: Time

definition handleCurrentReleases ::
  "(string \<Rightarrow> string \<Rightarrow> error + Time) \<Rightarrow> Request \<Rightarrow> DB \<Rightarrow> CurrentReleasesBody Response \<times> DB" where
  \<comment> \<open>the body lists the releases; their grouping by namespace is presentation\<close>
  "handleCurrentReleases Parse r db =
     (let requestedClientName = Get (Query r) ''client_name'';
          envName = Get (Query r) ''env_name''
      in if requestedClientName = [] \<or> envName = []
         then (HttpError StatusBadRequest
                 ''Missing required query parameters: client_name, env_name'', db)
         else
           (case getClientAccessFromRequest r of (authenticatedClientName, isAdmin) \<Rightarrow>
              if \<not> isAdmin \<and> authenticatedClientName \<noteq> requestedClientName
              then (HttpError StatusForbidden (access_denied_message requestedClientName), db)
              else
                (case GetCurrentReleasesFiltered db requestedClientName envName of
                   Inl err \<Rightarrow>
                     (HttpError StatusInternalServerError ''Failed to get current releases'', db)
                 | Inr found \<Rightarrow>
                     (case GetLastClientEnvUpdate Parse db requestedClientName envName of
                        Inl err \<Rightarrow>
                          (HttpError StatusInternalServerError ''Failed to get last update'', db)
                      | Inr lastUpdate \<Rightarrow>
                          (HttpOK \<lparr>body_releases = found, body_total = length found,
                                   body_timestamp = lastUpdate\<rparr>, db)))))"

definition handleReleaseHistory ::
  "(Release list \<Rightarrow> Release list) \<Rightarrow> Request \<Rightarrow> DB \<Rightarrow> ReleaseHistory Response \<times> DB" where
  "handleReleaseHistory visit r db =
     (let requestedClientName = Get (Vars r) ''client'';
          envName = Get (Vars r) ''env'';
          namespace = Get (Vars r) ''namespace'';
          workload = Get (Vars r) ''workload'';
          container = Get (Vars r) ''container''
      in if namespace = [] \<or> workload = [] \<or> container = [] \<or> requestedClientName = []
            \<or> envName = []
         then (HttpError StatusBadRequest
                 ''Missing required parameters: namespace, workload, container, client_name, env_name'',
               db)
         else
           (case getClientAccessFromRequest r of (authenticatedClientName, isAdmin) \<Rightarrow>
              if \<not> isAdmin \<and> authenticatedClientName \<noteq> requestedClientName
              then (HttpError StatusForbidden (access_denied_message requestedClientName), db)
              else
                (case GetReleaseHistory visit db namespace workload container requestedClientName
                        envName of
                   Inl err \<Rightarrow>
                     (HttpError StatusInternalServerError ''Failed to get release history'', db)
                 | Inr history \<Rightarrow> (HttpOK history, db))))"

section \<open>HTTP layer: manual collection (handlers, models)\<close>

definition splitLast :: "string \<Rightarrow> char \<Rightarrow> string list" where
  \<comment> \<open>split at the last occurrence of the separator, found by the scan from the end\<close>
  "splitLast s sep =
     (case dropWhile (\<lambda>c. c \<noteq> sep) (rev s) of
        [] \<Rightarrow> [s]
      | _ # before \<Rightarrow> [rev before, rev (takeWhile (\<lambda>c. c \<noteq> sep) (rev s))])"

definition ParseImagePath :: "string \<Rightarrow> string \<times> string \<times> string" where
  \<comment> \<open>returns (repo, name, tag)\<close>
  "ParseImagePath imagePath =
     (let parts = splitLast imagePath CHR '':'';
          tag = (if length parts = 2 then parts ! 1 else ''latest'');
          path = (if length parts = 2 then parts ! 0 else imagePath);
          repoParts = splitLast path CHR ''/''
      in if length repoParts = 2 then (repoParts ! 0, repoParts ! 1, tag) else ([], path, tag))"

record Config =
  cfgClientName :: string
  cfgEnvName :: string
  cfgMode :: string

record ManualCollectRequest =
  reqImageTag :: string
  reqImageSHA :: string
  reqReleasedAt :: "Time option"
  reqImageRepo :: string
  reqImageName :: string
  reqClientName :: string
  reqEnvName :: string

definition save_release :: "Config \<Rightarrow> Time \<Rightarrow> Release \<Rightarrow> DB \<Rightarrow> Release Response \<times> DB" where
  \<comment> \<open>the end of \<open>handleManualCollect\<close>: save to the ledger and, in slave mode, to the outbox\<close>
  "save_release cfg time_now release db =
     (case UpsertRelease time_now release db of
        Inl err \<Rightarrow> (HttpError StatusInternalServerError (''Failed to save release: '' @ err), db)
      | Inr db1 \<Rightarrow>
          if cfgMode cfg = ''slave''
          then (case UpsertPendingRelease time_now release db1 of
                  Inl err \<Rightarrow>
                    (HttpError StatusInternalServerError
                       (''Failed to upsert pending release: '' @ err), db1)
                | Inr db2 \<Rightarrow> (HttpOK release, db2))
          else (HttpOK release, db1))"

definition handleManualCollect ::
  "Config \<Rightarrow> Time \<Rightarrow> ManualCollectRequest option \<Rightarrow> Request \<Rightarrow> DB \<Rightarrow> Release Response \<times> DB" where
  \<comment> \<open>\<open>time_now\<close> is the clock; the decoded JSON body is \<open>None\<close> when decoding fails; the
      success body is modelled by the release that was saved, whose unset fields hold
      Go's zero values\<close>
  "handleManualCollect cfg time_now body r db =
     (let namespace = Get (Vars r) ''namespace'';
          workloadKind = Get (Vars r) ''workload-kind'';
          workloadName = Get (Vars r) ''workload-name'';
          container = Get (Vars r) ''container''
      in if namespace = [] \<or> workloadKind = [] \<or> workloadName = [] \<or> container = []
         then (HttpError StatusBadRequest
                 ''Missing required path parameters: namespace, workload-kind, workload-name, container'',
               db)
         else
           (case body of
              None \<Rightarrow> (HttpError StatusBadRequest ''Invalid request body'', db)
            | Some req \<Rightarrow>
                if reqImageTag req = [] \<or> reqImageSHA req = []
                then (HttpError StatusBadRequest ''Missing required field: image_tag, image_sha'', db)
                else
                  (let releasedAt = (case reqReleasedAt req of None \<Rightarrow> UTC time_now
                                     | Some t \<Rightarrow> UTC t);
                       imagePath = reqImageRepo req @ ''/'' @ reqImageName req @ '':'' @ reqImageTag req;
                       clientName = (if reqClientName req = [] then cfgClientName cfg
                                     else reqClientName req);
                       envName = (if reqEnvName req = [] then cfgEnvName cfg else reqEnvName req)
                   in case ParseImagePath imagePath of (repo, name, tag) \<Rightarrow>
                        save_release cfg time_now
                          \<lparr>ID = 0, Namespace = namespace, WorkloadName = workloadName,
                           WorkloadType = workloadKind, ContainerName = container,
                           ImageRepo = repo, ImageName = name, ImageTag = tag,
                           ImageSHA = reqImageSHA req, ClientName = clientName,
                           EnvName = envName, FirstSeen = releasedAt, LastSeen = releasedAt,
                           CreatedAt = ZeroTime, UpdatedAt = ZeroTime\<rparr>
                          db)))"

record ConfigBody =
  cb_mode :: string
  cb_env_name :: string
  cb_client_name :: string
  cb_is_admin :: bool
  cb_authenticated_client :: string

definition handleConfig :: "Config \<Rightarrow> Request \<Rightarrow> DB \<Rightarrow> ConfigBody Response \<times> DB" where
  "handleConfig cfg r db =
     (case getClientAccessFromRequest r of (authenticatedClientName, isAdmin) \<Rightarrow>
        (HttpOK \<lparr>cb_mode = cfgMode cfg, cb_env_name = cfgEnvName cfg,
                 cb_client_name = cfgClientName cfg, cb_is_admin = isAdmin,
                 cb_authenticated_client = authenticatedClientName\<rparr>, db))"

section \<open>Heartbeats (internal/database/sqlite.go, handlers)\<close>

definition ping_key :: "SlavePing \<Rightarrow> string \<times> string" where
  \<comment> \<open>UNIQUE(client_name, env_name)\<close>
  "ping_key p = (spClientName p, spEnvName p)"

definition UpsertSlavePing :: "timestamp \<Rightarrow> string \<Rightarrow> string \<Rightarrow> string \<Rightarrow> DB \<Rightarrow> error + DB" where
  "UpsertSlavePing time_now clientName envName slaveVersion db =
     (let now = RFC3339 time_now in
      case conn_err db of
        Some msg \<Rightarrow> Inl msg
      | None \<Rightarrow>
          if (clientName, envName) \<in> set (map ping_key (slave_pings db))
          then Inr (db\<lparr>slave_pings :=
                 map (\<lambda>p. if ping_key p = (clientName, envName)
                          then p\<lparr>spLastPingTime := now, spStatus := ''online'',
                                 spSlaveVersion := slaveVersion, spUpdatedAt := now\<rparr>
                          else p)
                     (slave_pings db)\<rparr>)
          else Inr (db\<lparr>slave_pings := slave_pings db @
                   [\<lparr>spID = pings_seq db + 1, spClientName = clientName, spEnvName = envName,
                     spLastPingTime = now, spStatus = ''online'', spSlaveVersion = slaveVersion,
                     spCreatedAt = now, spUpdatedAt = now\<rparr>],
                 pings_seq := pings_seq db + 1\<rparr>))"

definition status_of_age :: "int \<Rightarrow> string" where
  \<comment> \<open>the if-chain on \<open>timeSinceLastPing\<close>\<close>
  "status_of_age timeSinceLastPing =
     (if timeSinceLastPing \<le> 10 * Minute then ''online''
      else if timeSinceLastPing \<le> 15 * Minute then ''warning''
      else ''offline'')"

definition GetSlavePingStatus ::
  "timestamp \<Rightarrow> DB \<Rightarrow> string \<Rightarrow> string \<Rightarrow> error + string \<times> timestamp" where
  \<comment> \<open>\<open>QueryRow(...).Scan\<close> reads the first matching row, the column last_ping_time only\<close>
  "GetSlavePingStatus time_now db clientName envName =
     (case conn_err db of
        Some msg \<Rightarrow> Inl (''failed to query slave ping status: '' @ msg)
      | None \<Rightarrow>
          (case find (\<lambda>p. spClientName p = clientName \<and> spEnvName p = envName) (slave_pings db) of
             None \<Rightarrow> Inr (''never'', zero_time)
           | Some p \<Rightarrow>
               Inr (status_of_age (Sub time_now (spLastPingTime p)), spLastPingTime p)))"

record PingInfo =
  pi_status :: string
  pi_last_ping :: "timestamp option"

definition ping_info :: "timestamp \<Rightarrow> DB \<Rightarrow> string \<Rightarrow> string \<Rightarrow> PingInfo" where
  \<comment> \<open>handleClientsEnvironments: the body of the loop over a client's environments\<close>
  "ping_info time_now db clientName envName =
     (case GetSlavePingStatus time_now db clientName envName of
        Inl err \<Rightarrow> \<lparr>pi_status = ''unknown'', pi_last_ping = None\<rparr>
      | Inr (status, lastPing) \<Rightarrow>
          \<lparr>pi_status = status,
           pi_last_ping = (if \<not> IsZero lastPing then Some lastPing else None)\<rparr>)"

text \<open>
  The liveness classification as the specification words it, a function of the reading
  of the clock and of the last heartbeat, if any.
\<close>

definition spec_liveness :: "timestamp \<Rightarrow> timestamp option \<Rightarrow> string" where
  "spec_liveness now last_heartbeat_at =
     (case last_heartbeat_at of
        None \<Rightarrow> ''never''
      | Some t \<Rightarrow>
          if now - t \<le> 10 * Minute then ''online''
          else if now - t \<le> 15 * Minute then ''warning''
          else ''offline'')"

section \<open>Outbox and sync agent (internal/database/sqlite.go, internal/sync/client.go)\<close>

definition GetPendingReleases :: "DB \<Rightarrow> error + PendingRelease list" where
  \<comment> \<open>WHERE length(image_sha) > 0 ORDER BY created_at ASC, on the text of the column\<close>
  "GetPendingReleases db =
     (case conn_err db of
        Some msg \<Rightarrow> Inl msg
      | None \<Rightarrow>
          Inr (sort_key created_at (filter (\<lambda>r. length (ImageSHA r) > 0) (pending_releases db))))"

definition DeletePendingRelease :: "int \<Rightarrow> DB \<Rightarrow> error + DB" where
  \<comment> \<open>DELETE FROM pending_releases WHERE id = ?\<close>
  "DeletePendingRelease rowid db =
     (case conn_err db of
        Some msg \<Rightarrow> Inl msg
      | None \<Rightarrow> Inr (db\<lparr>pending_releases := filter (\<lambda>r. ID r \<noteq> rowid) (pending_releases db)\<rparr>))"

record Client =
  masterURL :: string
  apiKey :: string
  proxyURL :: string
  tlsInsecure :: bool

text \<open>
  The request that \<open>syncSingleRelease\<close> hands to \<open>client.Do\<close>: method PUT, the URL, the
  X-API-Key header when the client has a key, the JSON body, and the transport settings
  (the proxy when one is configured, the TLS mode).
\<close>

record SyncRequest =
  sr_url :: string
  sr_api_key :: "string option"
  sr_body :: ManualCollectRequest
  sr_proxy :: "string option"
  sr_tls_insecure :: bool

text \<open>
  What lies outside the program: \<open>json.Marshal\<close> and \<open>url.Parse\<close> of the Go standard
  library, each answering with its error if it fails, and \<open>client.Do\<close>, that is the network
  and the master, answering a request with an error (no response arrived) or with the
  status code of the response. \<open>http.NewRequestWithContext\<close> with the method PUT fails
  exactly when \<open>url.Parse\<close> refuses the URL.
\<close>

record Outside =
  json_Marshal :: "ManualCollectRequest \<Rightarrow> error option"
  url_Parse :: "string \<Rightarrow> error option"
  client_Do :: "SyncRequest \<Rightarrow> error + nat"

definition StatusOK :: nat where "StatusOK = 200"

definition sync_body :: "PendingRelease \<Rightarrow> ManualCollectRequest" where
  \<comment> \<open>\<open>requestBody\<close>; released_at is \<open>release.LastSeen.UTC()\<close>\<close>
  "sync_body release =
     \<lparr>reqImageTag = ImageTag release, reqImageSHA = ImageSHA release,
      reqReleasedAt = Some (UTC (LastSeen release)),
      reqImageRepo = ImageRepo release, reqImageName = ImageName release,
      reqClientName = ClientName release, reqEnvName = EnvName release\<rparr>"

definition sync_url :: "Client \<Rightarrow> PendingRelease \<Rightarrow> string" where
  \<comment> \<open>\<open>requestURL\<close>, the manual collect endpoint of the master\<close>
  "sync_url c release =
     masterURL c @ ''/api/collect/'' @ Namespace release @ ''/'' @ WorkloadType release
       @ ''/'' @ WorkloadName release @ ''/'' @ ContainerName release"

definition sync_request :: "Client \<Rightarrow> PendingRelease \<Rightarrow> SyncRequest" where
  "sync_request c release =
     \<lparr>sr_url = sync_url c release,
      sr_api_key = (if apiKey c \<noteq> [] then Some (apiKey c) else None),
      sr_body = sync_body release,
      sr_proxy = (if proxyURL c \<noteq> [] then Some (proxyURL c) else None),
      sr_tls_insecure = tlsInsecure c\<rparr>"

definition syncSingleRelease :: "Outside \<Rightarrow> Client \<Rightarrow> PendingRelease \<Rightarrow> error option" where
  \<comment> \<open>\<open>None\<close> is Go's nil error\<close>
  "syncSingleRelease w c release =
     (case json_Marshal w (sync_body release) of
        Some err \<Rightarrow> Some (''failed to marshal request: '' @ err)
      | None \<Rightarrow>
          (case url_Parse w (sync_url c release) of
             Some err \<Rightarrow> Some (''failed to create request: '' @ err)
           | None \<Rightarrow>
               (case (if proxyURL c \<noteq> [] then url_Parse w (proxyURL c) else None) of
                  Some err \<Rightarrow> Some (''failed to parse proxy URL: '' @ err)
                | None \<Rightarrow>
                    (case client_Do w (sync_request c release) of
                       Inl err \<Rightarrow> Some (''failed to send request: '' @ err)
                     | Inr code \<Rightarrow>
                         if code \<noteq> StatusOK then Some (''master returned status '' @ digits (int code))
                         else None))))"

fun sync_loop :: "Outside \<Rightarrow> Client \<Rightarrow> PendingRelease list \<Rightarrow> DB \<Rightarrow> DB" where
  \<comment> \<open>\<open>for _, release := range pendingReleases\<close>; both failures are logged only\<close>
  "sync_loop w c [] db = db"
| "sync_loop w c (release # rest) db =
     (case syncSingleRelease w c release of
        Some err \<Rightarrow> sync_loop w c rest db
      | None \<Rightarrow>
          (case DeletePendingRelease (ID release) db of
             Inl err \<Rightarrow> sync_loop w c rest db
           | Inr db' \<Rightarrow> sync_loop w c rest db'))"

definition SyncPendingReleases :: "Outside \<Rightarrow> Client \<Rightarrow> DB \<Rightarrow> error option \<times> DB" where
  "SyncPendingReleases w c db =
     (case GetPendingReleases db of
        Inl err \<Rightarrow> (Some (''failed to get pending releases: '' @ err), db)
      | Inr pendingReleases \<Rightarrow>
          if length pendingReleases = 0 then (None, db)
          else (None, sync_loop w c pendingReleases db))"

text \<open>
  Confirmed remote acceptance of an outbox entry, as the specification words it: the
  request for the entry could be built and the master answered it with the status 200.
\<close>

definition accepted_by_master :: "Outside \<Rightarrow> Client \<Rightarrow> PendingRelease \<Rightarrow> bool" where
  "accepted_by_master w c e \<longleftrightarrow>
     json_Marshal w (sync_body e) = None \<and>
     url_Parse w (sync_url c e) = None \<and>
     (proxyURL c = [] \<or> url_Parse w (proxyURL c) = None) \<and>
     client_Do w (sync_request c e) = Inr StatusOK"

section \<open>Concrete ledgers and requests\<close>

definition utc :: "int \<Rightarrow> Time" where
  \<comment> \<open>the time \<open>s\<close> seconds after the epoch, in UTC\<close>
  "utc s = Time (s * Second) 0"

definition in_zone :: "int \<Rightarrow> int \<Rightarrow> Time" where
  \<comment> \<open>the time \<open>s\<close> seconds after the epoch, in the zone \<open>hours\<close> hours east of UTC\<close>
  "in_zone hours s = Time (s * Second) (hours * 3600)"

definition mk_release ::
  "int \<Rightarrow> string \<times> string \<times> string \<times> string \<Rightarrow> string \<Rightarrow> string \<Rightarrow> string \<times> string \<Rightarrow> Time
     \<Rightarrow> Release" where
  \<comment> \<open>row id, component (namespace, kind, workload, container), tag, digest, tenant, time\<close>
  "mk_release rowid component tag sha tenant t =
     (case (component, tenant) of ((ns, kind, wname, cname), (client, env)) \<Rightarrow>
     \<lparr>ID = rowid, Namespace = ns, WorkloadName = wname, WorkloadType = kind,
      ContainerName = cname, ImageRepo = ''docker.io'', ImageName = wname, ImageTag = tag,
      ImageSHA = sha, ClientName = client, EnvName = env,
      FirstSeen = t, LastSeen = t, CreatedAt = t, UpdatedAt = t\<rparr>)"




definition digest_of :: "int \<Rightarrow> string" where
  "digest_of i = ''sha256:'' @ replicate (nat i) CHR ''a''"

definition c2_fact :: "string \<Rightarrow> int \<Rightarrow> Release" where
  "c2_fact client i =
     mk_release i (''prod'', ''Deployment'', ''api'', ''web'') ''1.0'' (digest_of i) (client, ''live'') (utc i)"



definition c2_local :: Release where
  \<comment> \<open>observed last, at 30 s, by a process whose zone lies two hours west of UTC\<close>
  "c2_local = (c2_fact ''alpha'' 11)\<lparr>FirstSeen := in_zone (- 2) 30, LastSeen := in_zone (- 2) 30\<rparr>"

definition c2_two_zones :: DB where
  "c2_two_zones = empty_db\<lparr>releases := map (c2_fact ''alpha'') [1..10] @ [c2_local],
                             releases_seq := 11\<rparr>"






definition c8_blank :: Release where
  "c8_blank = mk_release 1 (''prod'', ''Deployment'', ''api'', ''web'') ''1.0'' [] (''alpha'', ''live'') (utc 10)"

definition c8_legacy :: DB where
  "c8_legacy = empty_db\<lparr>releases := [c8_blank], releases_seq := 1\<rparr>"





definition c3_blue_api :: Release where
  "c3_blue_api = mk_release 1 (''blue'', ''Deployment'', ''api'', ''web'') ''1.0'' ''sha256:aaa'' (''alpha'', ''live'') (utc 10)"

definition c3_green_api :: Release where
  "c3_green_api = mk_release 2 (''green'', ''Deployment'', ''api'', ''web'') ''2.0'' ''sha256:bbb'' (''alpha'', ''live'') (utc 20)"



definition c3_green_stateful :: Release where
  "c3_green_stateful = mk_release 3 (''green'', ''StatefulSet'', ''api'', ''web'') ''7.0'' ''sha256:ccc'' (''alpha'', ''live'') (utc 30)"

definition c3_shadowed :: DB where
  "c3_shadowed = empty_db\<lparr>releases := [c3_blue_api, c3_green_api, c3_green_stateful], releases_seq := 3\<rparr>"

definition c3_hidden :: DB where
  "c3_hidden = empty_db\<lparr>releases := [c3_green_api, c3_green_stateful], releases_seq := 3\<rparr>"

definition via_bearer :: "string \<Rightarrow> Request" where
  "via_bearer k = \<lparr>Header = [''Authorization'' \<mapsto> ''Bearer '' @ k], Query = Map.empty, Vars = Map.empty\<rparr>"

definition via_header :: "string \<Rightarrow> Request" where
  "via_header k = \<lparr>Header = [''X-API-Key'' \<mapsto> k], Query = Map.empty, Vars = Map.empty\<rparr>"

definition via_query :: "string \<Rightarrow> Request" where
  "via_query k = \<lparr>Header = Map.empty, Query = [''apikey'' \<mapsto> k], Vars = Map.empty\<rparr>"

definition c9_admin_key :: string where
  "c9_admin_key = ''ops-team-0123456789abcdef0123456789''"

definition c9_credential :: string where
  "c9_credential = ''ops%2Dteam-0123456789abcdef0123456789''"

definition master_config :: Config where
  "master_config = \<lparr>cfgClientName = ''master'', cfgEnvName = ''master'', cfgMode = ''master''\<rparr>"

definition c5_alpha_key :: string where
  "c5_alpha_key = ''alpha-0123456789abcdef0123456789abcdef''"

definition c5_body :: ManualCollectRequest where
  "c5_body = \<lparr>reqImageTag = ''1.0'', reqImageSHA = ''sha256:aaa'', reqReleasedAt = Some (utc 10),
              reqImageRepo = ''docker.io'', reqImageName = ''api'',
              reqClientName = ''beta'', reqEnvName = ''live''\<rparr>"

definition c5_put :: Request where
  "c5_put = (via_header c5_alpha_key)
     \<lparr>Vars := [''namespace'' \<mapsto> ''prod'', ''workload-kind'' \<mapsto> ''Deployment'',
               ''workload-name'' \<mapsto> ''api'', ''container'' \<mapsto> ''web'']\<rparr>"

definition c5_saved :: Release where
  "c5_saved =
     \<lparr>ID = 0, Namespace = ''prod'', WorkloadName = ''api'', WorkloadType = ''Deployment'',
      ContainerName = ''web'', ImageRepo = ''docker.io'', ImageName = ''api'', ImageTag = ''1.0'',
      ImageSHA = ''sha256:aaa'', ClientName = ''beta'', EnvName = ''live'',
      FirstSeen = utc 10, LastSeen = utc 10,
      CreatedAt = ZeroTime, UpdatedAt = ZeroTime\<rparr>"

definition c6_entry :: "int \<Rightarrow> string \<Rightarrow> PendingRelease" where
  "c6_entry i sha =
     mk_release i (''prod'', ''Deployment'', ''api'', ''web'') ''1.0'' sha (''alpha'', ''live'') (utc i)"

definition c6_outbox :: DB where
  "c6_outbox = empty_db\<lparr>pending_releases :=
       [c6_entry 1 ''sha256:aaa'', c6_entry 2 ''sha256:bbb'', c6_entry 3 ''sha256:ccc''],
     pending_seq := 3\<rparr>"

definition c6_client :: Client where
  "c6_client = \<lparr>masterURL = ''https://master.example.com'',
                apiKey = ''alpha-0123456789abcdef0123456789abcdef'',
                proxyURL = [], tlsInsecure = False\<rparr>"

definition c6_answers :: "(error + nat) \<Rightarrow> Outside" where
  \<comment> \<open>the master accepts every push but that of the digest sha256:bbb, which gets \<open>answer\<close>\<close>
  "c6_answers answer =
     \<lparr>json_Marshal = (\<lambda>body. None), url_Parse = (\<lambda>u. None),
      client_Do = (\<lambda>rq. if reqImageSHA (sr_body rq) = ''sha256:bbb'' then answer else Inr 200)\<rparr>"

definition c7_ping :: SlavePing where
  "c7_ping = \<lparr>spID = 1, spClientName = ''alpha'', spEnvName = ''live'',
              spLastPingTime = 1000 * Second, spStatus = ''online'', spSlaveVersion = ''1.4.2'',
              spCreatedAt = 1000 * Second, spUpdatedAt = 1000 * Second\<rparr>"

definition c7_pings :: DB where
  "c7_pings = empty_db\<lparr>slave_pings := [c7_ping], pings_seq := 1\<rparr>"

section \<open>Properties of the classifier\<close>

lemma byte_inj: "byte a = byte b \<longleftrightarrow> a = b"
proof
  assume h: "byte a = byte b"
  have lt: "(of_char c :: nat) < 2 ^ 8" for c
    using nat_of_char_less_256 [of c] by simp
  from h have "take_bit 8 (of_char a :: nat) = take_bit 8 (of_char b :: nat)"
    by (simp add: byte_def word_of_nat_eq_iff)
  then have "(of_char a :: nat) = of_char b"
    using lt by (simp add: take_bit_nat_eq_self)
  then show "a = b" by simp
qed simp

lemma xor_byte_zero: "(a :: 8 word) XOR b = 0 \<longleftrightarrow> a = b"
  by (metis bit.xor_left_self xor.right_neutral)

lemma xor_accumulate_zero:
  "length x = length y \<Longrightarrow> xor_accumulate v x y = 0 \<longleftrightarrow> v = 0 \<and> x = y"
proof (induction v x y rule: xor_accumulate.induct)
  case (1 v a x b y)
  then have "xor_accumulate (v OR (byte a XOR byte b)) x y = 0
      \<longleftrightarrow> v OR (byte a XOR byte b) = 0 \<and> x = y"
    by simp
  then show ?case
    by (simp add: or_eq_0_iff xor_byte_zero byte_inj conj_ac)
qed simp_all

lemma ConstantTimeCompare_eq: "ConstantTimeCompare x y = 1 \<longleftrightarrow> x = y"
  by (auto simp: ConstantTimeCompare_def xor_accumulate_zero)

lemma isValidAPIKey_iff: "isValidAPIKey apiKeys providedKey \<longleftrightarrow> providedKey \<in> set apiKeys"
  by (induction apiKeys) (auto simp: ConstantTimeCompare_eq)

lemma Split_nonempty: "Split k sep \<noteq> []"
  by (induction k) (auto split: list.splits)

lemma Split_length: "length (Split k sep) = Suc (count_list k sep)"
  by (induction k) (auto split: list.splits simp: Split_nonempty)

lemma Split_one: "Split k sep = [a] \<longleftrightarrow> k = a \<and> sep \<notin> set a"
proof (induction k arbitrary: a)
  case Nil
  then show ?case by auto
next
  case (Cons c cs)
  obtain p ps where pps: "Split cs sep = p # ps"
    using Split_nonempty [of cs sep] by (cases "Split cs sep") auto
  show ?case
  proof (cases "c = sep")
    case True
    then show ?thesis using pps by auto
  next
    case False
    show ?thesis
    proof
      assume "Split (c # cs) sep = [a]"
      with False pps have "a = c # p" "ps = []" by auto
      with pps Cons.IH [of p] have "cs = p \<and> sep \<notin> set p" by simp
      then show "c # cs = a \<and> sep \<notin> set a" using \<open>a = c # p\<close> False by auto
    next
      assume h: "c # cs = a \<and> sep \<notin> set a"
      then obtain a' where a': "a = c # a'" "cs = a'" by (cases a) auto
      with h Cons.IH [of a'] have "Split cs sep = [a']" by simp
      then show "Split (c # cs) sep = [a]" using False a' by simp
    qed
  qed
qed

lemma Split_two:
  "Split k sep = [a, b] \<longleftrightarrow> k = a @ sep # b \<and> sep \<notin> set a \<and> sep \<notin> set b"
proof (induction k arbitrary: a)
  case Nil
  then show ?case by simp
next
  case (Cons c cs)
  show ?case
  proof (cases "c = sep")
    case True
    then show ?thesis by (cases a) (auto simp: Split_one)
  next
    case False
    show ?thesis
    proof
      assume h: "Split (c # cs) sep = [a, b]"
      obtain p ps where pps: "Split cs sep = p # ps"
        using Split_nonempty [of cs sep] by (cases "Split cs sep") auto
      with h False have "a = c # p" "ps = [b]" by auto
      with pps Cons.IH [of p] have "cs = p @ sep # b \<and> sep \<notin> set p \<and> sep \<notin> set b"
        by simp
      with \<open>a = c # p\<close> False show "c # cs = a @ sep # b \<and> sep \<notin> set a \<and> sep \<notin> set b"
        by auto
    next
      assume h: "c # cs = a @ sep # b \<and> sep \<notin> set a \<and> sep \<notin> set b"
      with False obtain a' where a': "a = c # a'" "cs = a' @ sep # b" by (cases a) auto
      with h Cons.IH [of a'] have "Split cs sep = [a', b]" by simp
      with a' False show "Split (c # cs) sep = [a, b]" by simp
    qed
  qed
qed

lemma length_two: "length xs = 2 \<Longrightarrow> \<exists>a b. xs = [a, b]"
  by (cases xs; cases "tl xs"; cases "tl (tl xs)") auto

lemma parse_tenant: "tenant_shape k t s \<Longrightarrow> parseAPIKey k = (t, s, False)"
proof -
  assume ts: "tenant_shape k t s"
  then have "Split k CHR ''-'' = [t, s]" by (simp add: Split_two tenant_shape_def)
  then show ?thesis using ts by (simp add: parseAPIKey_def tenant_shape_def)
qed

lemma parse_admin: "\<not> (\<exists>t s. tenant_shape k t s) \<Longrightarrow> parseAPIKey k = ([], k, True)"
proof -
  assume no: "\<not> (\<exists>t s. tenant_shape k t s)"
  define parts where "parts = Split k CHR ''-''"
  have "\<not> (length parts = 2 \<and> parts ! 0 \<noteq> [] \<and> parts ! 1 \<noteq> [])"
  proof
    assume h: "length parts = 2 \<and> parts ! 0 \<noteq> [] \<and> parts ! 1 \<noteq> []"
    then obtain a b where ab: "parts = [a, b]" using length_two by blast
    with h have ne: "a \<noteq> []" "b \<noteq> []" by simp_all
    from ab have "Split k CHR ''-'' = [a, b]" by (simp only: parts_def)
    then have "k = a @ CHR ''-'' # b \<and> CHR ''-'' \<notin> set a \<and> CHR ''-'' \<notin> set b"
      by (rule iffD1 [OF Split_two])
    with ne have "tenant_shape k a b" by (simp add: tenant_shape_def)
    with no show False by blast
  qed
  then show ?thesis unfolding parts_def by (simp add: parseAPIKey_def Let_def)
qed

lemma tenant_shape_count: "tenant_shape k t s \<Longrightarrow> count_list k CHR ''-'' = 1"
  by (simp add: tenant_shape_def)

lemma parse_cases:
  "(\<exists>t s. tenant_shape k t s \<and> parseAPIKey k = (t, s, False))
   \<or> ((\<forall>t s. \<not> tenant_shape k t s) \<and> parseAPIKey k = ([], k, True))"
  using parse_tenant parse_admin by blast

text \<open>
  C4. A credential is treated as tenant-scoped, with the first segment as tenant and the
  second as secret, exactly when it consists of two non-empty segments around a single
  separator. Every other shape (no separator, more than one, an empty first or second
  segment) is an admin credential carried verbatim. Validation compares the rebuilt full
  string (the credential itself for an admin key) with the configured keys through
  \<open>ConstantTimeCompare\<close>, and accepts exactly on equality with one of them.
\<close>

theorem parseAPIKey_classifies_by_shape:
  "(tenant_shape k t s \<longrightarrow> parseAPIKey k = (t, s, False)) \<and>
   ((\<forall>t' s'. \<not> tenant_shape k t' s') \<longrightarrow> parseAPIKey k = ([], k, True)) \<and>
   (snd (snd (parseAPIKey k)) \<longleftrightarrow> (\<forall>t' s'. \<not> tenant_shape k t' s')) \<and>
   (count_list k CHR ''-'' \<noteq> 1 \<longrightarrow> parseAPIKey k = ([], k, True)) \<and>
   parseAPIKey (''-'' @ b) = ([], ''-'' @ b, True) \<and>
   parseAPIKey (a @ ''-'') = ([], a @ ''-'', True) \<and>
   validateAPIKeyAccess apiKeys clientName clientAuth isAdmin
     = ((if isAdmin then clientAuth else clientName @ ''-'' @ clientAuth) \<in> set apiKeys)"
proof -
  have c1: "tenant_shape k t s \<longrightarrow> parseAPIKey k = (t, s, False)"
    using parse_tenant by blast
  have c2: "(\<forall>t' s'. \<not> tenant_shape k t' s') \<longrightarrow> parseAPIKey k = ([], k, True)"
    using parse_admin by blast
  have c3: "snd (snd (parseAPIKey k)) \<longleftrightarrow> (\<forall>t' s'. \<not> tenant_shape k t' s')"
    using parse_cases [of k] by auto
  have c4: "count_list k CHR ''-'' \<noteq> 1 \<longrightarrow> parseAPIKey k = ([], k, True)"
    using parse_admin [of k] tenant_shape_count [of k] by blast
  have "\<not> tenant_shape (''-'' @ b) t' s'" for t' s'
    by (cases t') (auto simp: tenant_shape_def)
  then have c5: "parseAPIKey (''-'' @ b) = ([], ''-'' @ b, True)"
    using parse_admin [of "''-'' @ b"] by blast
  have "\<not> tenant_shape (a @ ''-'') t' s'" for t' s'
  proof
    assume h: "tenant_shape (a @ ''-'') t' s'"
    then have "s' \<noteq> []" and e: "a @ ''-'' = t' @ ''-'' @ s'" and n: "CHR ''-'' \<notin> set s'"
      by (simp_all add: tenant_shape_def)
    from e have "last (a @ ''-'') = last (t' @ ''-'' @ s')" by simp
    with \<open>s' \<noteq> []\<close> have "last s' = CHR ''-''" by simp
    with \<open>s' \<noteq> []\<close> n show False using last_in_set by metis
  qed
  then have c6: "parseAPIKey (a @ ''-'') = ([], a @ ''-'', True)"
    using parse_admin [of "a @ ''-''"] by blast
  have c7: "validateAPIKeyAccess apiKeys clientName clientAuth isAdmin
     = ((if isAdmin then clientAuth else clientName @ ''-'' @ clientAuth) \<in> set apiKeys)"
    by (simp add: validateAPIKeyAccess_def isValidAPIKey_iff)
  from c1 c2 c3 c4 c5 c6 c7 show ?thesis by blast
qed

theorem parseAPIKey_classifies_by_shape_witness:
  "tenant_shape ''alpha-s3cret'' ''alpha'' ''s3cret'' \<and>
   parseAPIKey ''alpha-s3cret'' = (''alpha'', ''s3cret'', False) \<and>
   count_list ''a-b-c'' CHR ''-'' \<noteq> 1 \<and>
   (\<forall>t' s'. \<not> tenant_shape ''a-b-c'' t' s') \<and>
   parseAPIKey ''a-b-c'' = ([], ''a-b-c'', True) \<and>
   validateAPIKeyAccess [''alpha-s3cret'', ''a-b-c''] ''alpha'' ''s3cret'' False"
proof -
  have h1: "tenant_shape ''alpha-s3cret'' ''alpha'' ''s3cret''"
    by (simp add: tenant_shape_def)
  have h2: "count_list ''a-b-c'' CHR ''-'' \<noteq> 1" by simp
  then have h3: "\<forall>t' s'. \<not> tenant_shape ''a-b-c'' t' s'"
    using tenant_shape_count by blast
  note T1 = parseAPIKey_classifies_by_shape
    [where k = "''alpha-s3cret''" and t = "''alpha''" and s = "''s3cret''"
       and apiKeys = "[''alpha-s3cret'', ''a-b-c'']" and clientName = "''alpha''"
       and clientAuth = "''s3cret''" and isAdmin = False]
  note T2 = parseAPIKey_classifies_by_shape [where k = "''a-b-c''"]
  from T1 h1 have r1: "parseAPIKey ''alpha-s3cret'' = (''alpha'', ''s3cret'', False)" by blast
  from T2 h3 have r2: "parseAPIKey ''a-b-c'' = ([], ''a-b-c'', True)" by blast
  from T1 have r3: "validateAPIKeyAccess [''alpha-s3cret'', ''a-b-c''] ''alpha'' ''s3cret'' False"
    by simp
  from h1 h2 h3 r1 r2 r3 show ?thesis by blast
qed

text \<open>
  C10. The pipeline that parses a credential and then validates the parsed parts accepts a
  string exactly when it is, character for character, one of the configured keys: for a
  tenant-scoped key the rebuilt \<open>clientName-clientAuth\<close> is the original string, an admin
  key is passed through unchanged.
\<close>

theorem validate_parsed_key_iff_configured:
  "(case parseAPIKey k of (clientName, clientAuth, isAdmin) \<Rightarrow>
      validateAPIKeyAccess apiKeys clientName clientAuth isAdmin = (k \<in> set apiKeys) \<and>
      (if isAdmin then clientAuth else clientName @ ''-'' @ clientAuth) = k)"
proof -
  from parse_cases [of k] show ?thesis
  proof
    assume "\<exists>t s. tenant_shape k t s \<and> parseAPIKey k = (t, s, False)"
    then obtain t s where "tenant_shape k t s" "parseAPIKey k = (t, s, False)" by blast
    then show ?thesis
      by (simp add: validateAPIKeyAccess_def isValidAPIKey_iff tenant_shape_def)
  next
    assume "(\<forall>t s. \<not> tenant_shape k t s) \<and> parseAPIKey k = ([], k, True)"
    then show ?thesis
      by (simp add: validateAPIKeyAccess_def isValidAPIKey_iff)
  qed
qed

theorem validate_parsed_key_iff_configured_witness:
  "parseAPIKey ''alpha-s3cret'' = (''alpha'', ''s3cret'', False) \<and>
   validateAPIKeyAccess [''root'', ''alpha-s3cret''] ''alpha'' ''s3cret'' False \<and>
   \<not> validateAPIKeyAccess [''root'', ''alpha-other''] ''alpha'' ''s3cret'' False"
proof -
  have p: "parseAPIKey ''alpha-s3cret'' = (''alpha'', ''s3cret'', False)"
    by (simp add: parseAPIKey_def)
  from validate_parsed_key_iff_configured
    [where k = "''alpha-s3cret''" and apiKeys = "[''root'', ''alpha-s3cret'']"]
  have a: "validateAPIKeyAccess [''root'', ''alpha-s3cret''] ''alpha'' ''s3cret'' False"
    unfolding p by simp
  from validate_parsed_key_iff_configured
    [where k = "''alpha-s3cret''" and apiKeys = "[''root'', ''alpha-other'']"]
  have b: "\<not> validateAPIKeyAccess [''root'', ''alpha-other''] ''alpha'' ''s3cret'' False"
    unfolding p by simp
  from p a b show ?thesis by blast
qed
section \<open>Properties of the ledger writes\<close>

lemma RFC3339_whole [simp]: "RFC3339 (n * Second) = n * Second"
  by (simp add: RFC3339_def Second_def)

lemma Stored_utc [simp]: "Stored (utc s) = utc s"
  by (simp add: utc_def)

lemma Stored_in_zone [simp]: "Stored (in_zone h s) = in_zone h s"
  by (simp add: in_zone_def)


lemma conflict_key_do_update [simp]: "conflict_key (do_update now release row) = conflict_key row"
  by (simp add: do_update_def conflict_key_def)

lemma conflict_key_stored_row [simp]: "conflict_key (stored_row i now release) = conflict_key release"
  by (simp add: stored_row_def conflict_key_def)











section \<open>Properties of retention\<close>

lemma set_newest_first [simp]: "set (newest_first rows) = set rows"
  by (simp add: newest_first_def)

lemma length_newest_first [simp]: "length (newest_first rows) = length rows"
  by (simp add: newest_first_def)

lemma distinct_newest_first [simp]: "distinct (newest_first rows) = distinct rows"
  by (simp add: newest_first_def)


















text \<open>
  Retention ranks the text of last_seen, not the instant. Of eleven facts of one component
  and tenant, the one observed last (at 30 s) was written by a process two hours west of
  UTC, the other ten (1 s to 10 s) in UTC: its text is the smallest, it is the row that
  retention deletes, and the rule of the specification deletes the oldest fact instead.
\<close>

lemma cleanup_ranks_text_not_instant:
  "last_seen c2_local = ''1969-12-31T22:00:30-02:00'' \<and>
   last_seen (c2_fact ''alpha'' 10) = ''1970-01-01T00:00:10Z'' \<and>
   map last_observed_at (releases c2_two_zones) = map (\<lambda>s. s * Second) ([1..10] @ [30]) \<and>
   map ID (releases (projr (CleanupOldReleases by_idx_releases_component c2_two_zones))) = [1..10] \<and>
   map ID (spec_Retention (releases c2_two_zones)) = [2..11]"
  by code_simp

section \<open>Properties of the ledger reads\<close>

lemma sql_MAX_Max: "xs \<noteq> [] \<Longrightarrow> sql_MAX xs = Some (Max (set xs))"
proof (cases xs)
  case Nil
  assume "xs \<noteq> []"
  with Nil show ?thesis by simp
next
  case (Cons t ts)
  have "Max (set (t # ts)) = fold max ts t" by (rule Max.set_eq_fold)
  with Cons show ?thesis by simp
qed



lemma set_order_by_component [simp]: "set (order_by_component rs) = set rs"
  by (simp add: order_by_component_def)

lemma distinct_order_by_component [simp]: "distinct (order_by_component rs) = distinct rs"
  by (simp add: order_by_component_def)

lemma length_order_by_component [simp]: "length (order_by_component rs) = length rs"
  by (simp add: order_by_component_def)






text \<open>
  The unfiltered query, which serves the health check, restricts the MAX subquery to rows
  with a digest and does not return the row of that ledger.
\<close>

lemma current_releases_unfiltered_skips_empty_digest:
  "GetCurrentReleases c8_legacy = Inr []"
  by code_simp

text \<open>
  Manual collection refuses a request without digest before it writes, so it never adds a
  fact with an empty digest to the ledger.
\<close>

lemma upsert_rows_keeps_digests:
  assumes "\<forall>x\<in>set rows. ImageSHA x \<noteq> []" and "ImageSHA release \<noteq> []"
  shows "\<forall>x\<in>set (upsert_rows seq now release rows). ImageSHA x \<noteq> []"
  using assms by (auto simp: upsert_rows_def do_update_def stored_row_def)

lemma UpsertRelease_keeps_digests:
  assumes "UpsertRelease n release db = Inr db'"
    and "\<forall>x\<in>set (releases db). ImageSHA x \<noteq> []" and "ImageSHA release \<noteq> []"
  shows "\<forall>x\<in>set (releases db'). ImageSHA x \<noteq> []"
proof -
  from assms(1) have "releases db' = upsert_rows (releases_seq db) (Stored n) release (releases db)"
    by (auto simp: UpsertRelease_def split: option.splits)
  with upsert_rows_keeps_digests [OF assms(2,3)] show ?thesis by simp
qed

lemma UpsertPendingRelease_releases:
  "UpsertPendingRelease n release db = Inr db' \<Longrightarrow> releases db' = releases db"
  by (auto simp: UpsertPendingRelease_def split: option.splits)

lemma save_release_keeps_digests:
  assumes inv: "\<forall>x\<in>set (releases db). ImageSHA x \<noteq> []" and sha: "ImageSHA release \<noteq> []"
  shows "\<forall>x\<in>set (releases (snd (save_release cfg time_now release db))). ImageSHA x \<noteq> []"
proof (cases "UpsertRelease time_now release db")
  case (Inl err)
  with inv show ?thesis by (simp add: save_release_def)
next
  case (Inr db1)
  from UpsertRelease_keeps_digests [OF Inr inv sha]
  have inv1: "\<forall>x\<in>set (releases db1). ImageSHA x \<noteq> []" .
  show ?thesis
  proof (cases "UpsertPendingRelease time_now release db1")
    case (Inl err)
    with \<open>UpsertRelease time_now release db = Inr db1\<close> inv1 show ?thesis
      by (simp add: save_release_def)
  next
    case db2: (Inr db2)
    from UpsertPendingRelease_releases [OF db2] inv1
    have "\<forall>x\<in>set (releases db2). ImageSHA x \<noteq> []" by simp
    with \<open>UpsertRelease time_now release db = Inr db1\<close> db2 inv1 show ?thesis
      by (simp add: save_release_def)
  qed
qed

lemma handleManualCollect_keeps_digests:
  assumes inv: "\<forall>x\<in>set (releases db). ImageSHA x \<noteq> []"
  shows "\<forall>x\<in>set (releases (snd (handleManualCollect cfg time_now body r db))). ImageSHA x \<noteq> []"
proof (cases "Get (Vars r) ''namespace'' = [] \<or> Get (Vars r) ''workload-kind'' = []
    \<or> Get (Vars r) ''workload-name'' = [] \<or> Get (Vars r) ''container'' = []")
  case True
  with inv show ?thesis by (simp add: handleManualCollect_def Let_def)
next
  case params: False
  show ?thesis
  proof (cases body)
    case None
    with params inv show ?thesis by (simp add: handleManualCollect_def Let_def)
  next
    case (Some req)
    show ?thesis
    proof (cases "reqImageTag req = [] \<or> reqImageSHA req = []")
      case True
      with params Some inv show ?thesis by (simp add: handleManualCollect_def Let_def)
    next
      case False
      obtain repo name tag where parsed:
        "ParseImagePath (reqImageRepo req @ ''/'' @ reqImageName req @ '':'' @ reqImageTag req)
           = (repo, name, tag)"
        by (cases "ParseImagePath (reqImageRepo req @ ''/'' @ reqImageName req @ '':'' @ reqImageTag req)")
           auto
      from False have sha: "reqImageSHA req \<noteq> []" by simp
      from params Some False parsed obtain release where
        run: "handleManualCollect cfg time_now body r db = save_release cfg time_now release db"
        and rel: "ImageSHA release = reqImageSHA req"
        by (simp add: handleManualCollect_def Let_def)
      from sha rel have "ImageSHA release \<noteq> []" by simp
      with inv show ?thesis unfolding run by (rule save_release_keeps_digests)
    qed
  qed
qed

section \<open>Properties of the lookup by workload name\<close>




















text \<open>
  The lookup differs from the lookup of the specification where a workload of another
  kind shares namespace, name and container name with the queried one and was observed
  later. With Deployment api/web in the namespaces blue and green and a newer StatefulSet
  api/web in green, the latest facts of the Deployment lie in two namespaces, which the
  specification answers with AmbiguousMatch; the code drops green's fact and returns
  blue's release as the single result, with a success badge. With green's two facts
  alone, the Deployment has one latest fact, which the specification returns; the code
  returns no release, and the badge says not deployed.
\<close>

theorem resolve_by_name_misses_fact_behind_other_kind:
  "map (\<lambda>r. (Namespace r, WorkloadType r, last_seen r)) (releases c3_shadowed)
     = [(''blue'', ''Deployment'', ''1970-01-01T00:00:10Z''),
        (''green'', ''Deployment'', ''1970-01-01T00:00:20Z''),
        (''green'', ''StatefulSet'', ''1970-01-01T00:00:30Z'')] \<and>
   spec_ResolveByName (releases c3_shadowed) ''Deployment'' ''api'' ''web'' ''alpha'' ''live''
     = AmbiguousMatch \<and>
   GetCurrentReleaseByWorkload c3_shadowed ''Deployment'' ''api'' ''web'' ''alpha'' ''live''
     = Inr (Some (toCurrentRelease c3_blue_api)) \<and>
   handleBadgeCore c3_shadowed ''Deployment'' ''api'' ''web'' ''alpha'' ''live''
     = CreateSuccessBadge ''live'' ''1.0'' \<and>
   releases c3_hidden = [c3_green_api, c3_green_stateful] \<and>
   spec_ResolveByName (releases c3_hidden) ''Deployment'' ''api'' ''web'' ''alpha'' ''live''
     = Found (toCurrentRelease c3_green_api) \<and>
   GetCurrentReleaseByWorkload c3_hidden ''Deployment'' ''api'' ''web'' ''alpha'' ''live'' = Inr None \<and>
   handleBadgeCore c3_hidden ''Deployment'' ''api'' ''web'' ''alpha'' ''live''
     = CreateNotFoundBadge ''live''"
  by code_simp

section \<open>Properties of credential extraction\<close>

lemma QueryUnescape_plain:
  "CHR ''%'' \<notin> set k \<Longrightarrow> CHR ''+'' \<notin> set k \<Longrightarrow> QueryUnescape k = Some k"
  by (induction k) auto

text \<open>
  A credential that contains neither \<open>%\<close> nor \<open>+\<close>, as every key of the configured
  alphabet does, is extracted unchanged from all three places.
\<close>

lemma extract_plain:
  assumes "CHR ''%'' \<notin> set k" "CHR ''+'' \<notin> set k"
  shows "extractAPIKey (via_bearer k) = k" "extractAPIKey (via_header k) = k"
    "extractAPIKey (via_query k) = k"
  using assms
  by (simp_all add: extractAPIKey_def via_bearer_def via_header_def via_query_def Get_def
      HasPrefix_def TrimPrefix_def QueryUnescape_plain Let_def)

text \<open>
  C9 (the code at the failing input). The value of the query parameter, already decoded
  by \<open>URL.Query\<close>, is decoded a second time. The credential \<open>ops%2Dteam-0123...\<close> is
  classified as tenant-scoped (tenant \<open>ops%2Dteam\<close>) when it arrives in either header, and
  as the admin key \<open>ops-team-0123...\<close> when it arrives as query parameter; with that
  admin key configured, the header request is rejected and the query request is served
  as admin.
\<close>

theorem query_parameter_is_decoded_twice:
  "parseAPIKey (extractAPIKey (via_bearer c9_credential))
     = (''ops%2Dteam'', ''0123456789abcdef0123456789'', False) \<and>
   parseAPIKey (extractAPIKey (via_header c9_credential))
     = (''ops%2Dteam'', ''0123456789abcdef0123456789'', False) \<and>
   parseAPIKey (extractAPIKey (via_query c9_credential)) = ([], c9_admin_key, True) \<and>
   fst (api_route [c9_admin_key] (handleConfig master_config) (via_header c9_credential) empty_db)
     = HttpError StatusUnauthorized ''Invalid API key'' \<and>
   fst (api_route [c9_admin_key] (handleConfig master_config) (via_query c9_credential) empty_db)
     = HttpOK \<lparr>cb_mode = ''master'', cb_env_name = ''master'', cb_client_name = ''master'',
               cb_is_admin = True, cb_authenticated_client = []\<rparr>"
  by code_simp

theorem query_parameter_is_decoded_twice_witness:
  "fst (parseAPIKey (extractAPIKey (via_header c9_credential))) = ''ops%2Dteam'' \<and>
   fst (parseAPIKey (extractAPIKey (via_query c9_credential))) = []"
  using query_parameter_is_decoded_twice by simp

section \<open>Properties of access control\<close>

lemma middleware_tenant:
  assumes k: "extractAPIKey r = k" and valid: "k \<in> set apiKeys" and shape: "tenant_shape k A s"
  shows "api_route apiKeys handler r db =
           handler (r\<lparr>Header := (Header r)(''X-Client-Name'' \<mapsto> A, ''X-Is-Admin'' \<mapsto> ''false'')\<rparr>) db"
proof -
  from valid have ne: "length apiKeys > 0" by auto
  from shape have p: "parseAPIKey k = (A, s, False)" by (rule parse_tenant)
  from shape have kne: "k \<noteq> []" and Ane: "A \<noteq> []" and rebuilt: "A @ ''-'' @ s = k"
    by (auto simp: tenant_shape_def)
  from valid rebuilt have ok: "validateAPIKeyAccess apiKeys A s False"
    by (simp add: validateAPIKeyAccess_def isValidAPIKey_iff)
  show ?thesis
    using ne k p kne Ane ok by (simp add: api_route_def authMiddleware_def Let_def)
qed

lemma middleware_admin:
  assumes k: "extractAPIKey r = k" and valid: "k \<in> set apiKeys" and kne: "k \<noteq> []"
    and shape: "\<forall>t s. \<not> tenant_shape k t s"
  shows "api_route apiKeys handler r db =
           handler (r\<lparr>Header := (Header r)(''X-Is-Admin'' \<mapsto> ''true'')\<rparr>) db"
proof -
  from valid have ne: "length apiKeys > 0" by auto
  from shape have p: "parseAPIKey k = ([], k, True)" using parse_admin by blast
  from valid have ok: "validateAPIKeyAccess apiKeys [] k True"
    by (simp add: validateAPIKeyAccess_def isValidAPIKey_iff)
  show ?thesis
    using ne k p kne ok by (simp add: api_route_def authMiddleware_def Let_def)
qed

lemma access_tenant [simp]:
  "getClientAccessFromRequest (r\<lparr>Header := (Header r)(''X-Client-Name'' \<mapsto> A, ''X-Is-Admin'' \<mapsto> ''false'')\<rparr>)
     = (A, False)"
  by (simp add: getClientAccessFromRequest_def Get_def)

lemma access_admin [simp]:
  "getClientAccessFromRequest (r\<lparr>Header := (Header r)(''X-Is-Admin'' \<mapsto> ''true'')\<rparr>) = ([], True)"
  by (simp add: getClientAccessFromRequest_def Get_def)

text \<open>
  The read handlers behind the middleware: a valid tenant-scoped key of client A that asks
  for another client B is answered 403 with the access-denied message, and the store is
  not touched; a valid admin key reads any client (the current releases provided that
  \<open>time.Parse\<close> accepts the stored updated_at texts, which \<open>Format(time.RFC3339)\<close> wrote).
\<close>

lemma tenant_key_reads_other_client_forbidden:
  assumes k: "extractAPIKey r = k" and valid: "k \<in> set apiKeys" and shape: "tenant_shape k A s"
  shows "Get (Query r) ''client_name'' = B \<Longrightarrow> Get (Query r) ''env_name'' = e \<Longrightarrow>
           B \<noteq> [] \<Longrightarrow> e \<noteq> [] \<Longrightarrow> B \<noteq> A \<Longrightarrow>
         api_route apiKeys (handleCurrentReleases Parse) r db
           = (HttpError StatusForbidden (access_denied_message B), db)"
    and "Get (Vars r) ''client'' = B \<Longrightarrow> Get (Vars r) ''env'' \<noteq> [] \<Longrightarrow>
         Get (Vars r) ''namespace'' \<noteq> [] \<Longrightarrow> Get (Vars r) ''workload'' \<noteq> [] \<Longrightarrow>
         Get (Vars r) ''container'' \<noteq> [] \<Longrightarrow> B \<noteq> [] \<Longrightarrow> B \<noteq> A \<Longrightarrow>
         api_route apiKeys (handleReleaseHistory visit) r db
           = (HttpError StatusForbidden (access_denied_message B), db)"
  unfolding middleware_tenant [OF k valid shape]
  by (auto simp: handleCurrentReleases_def handleReleaseHistory_def Let_def)

lemma sql_MAX_in: "sql_MAX xs = Some m \<Longrightarrow> m \<in> set xs"
proof -
  assume m: "sql_MAX xs = Some m"
  then have ne: "xs \<noteq> []" by auto
  from sql_MAX_Max [OF ne] m have "m = Max (set xs)" by simp
  with ne show ?thesis by simp
qed

lemma last_update_parsed:
  assumes alive: "conn_err db = None"
    and parsed: "\<forall>x\<in>set (releases db). \<exists>t. Parse layout_RFC3339 (updated_at x) = Inr t"
  shows "\<exists>t. GetLastClientEnvUpdate Parse db clientName envName = Inr t"
proof (cases "sql_MAX (map updated_at
         (filter (\<lambda>r. ClientName r = clientName \<and> EnvName r = envName) (releases db)))")
  case None
  with alive show ?thesis by (simp add: GetLastClientEnvUpdate_def)
next
  case (Some m)
  from sql_MAX_in [OF Some] obtain x where "x \<in> set (releases db)" "m = updated_at x" by auto
  with parsed obtain t where "Parse layout_RFC3339 m = Inr t" by blast
  with alive Some show ?thesis by (simp add: GetLastClientEnvUpdate_def)
qed

lemma admin_key_reads_any_client:
  assumes k: "extractAPIKey r = k" and valid: "k \<in> set apiKeys" and kne: "k \<noteq> []"
    and shape: "\<forall>t s. \<not> tenant_shape k t s" and alive: "conn_err db = None"
  shows "Get (Query r) ''client_name'' \<noteq> [] \<Longrightarrow> Get (Query r) ''env_name'' \<noteq> [] \<Longrightarrow>
         \<forall>x\<in>set (releases db). \<exists>t. Parse layout_RFC3339 (updated_at x) = Inr t \<Longrightarrow>
         \<exists>body. api_route apiKeys (handleCurrentReleases Parse) r db = (HttpOK body, db)"
    and "Get (Vars r) ''client'' \<noteq> [] \<Longrightarrow> Get (Vars r) ''env'' \<noteq> [] \<Longrightarrow>
         Get (Vars r) ''namespace'' \<noteq> [] \<Longrightarrow> Get (Vars r) ''workload'' \<noteq> [] \<Longrightarrow>
         Get (Vars r) ''container'' \<noteq> [] \<Longrightarrow>
         \<exists>body. api_route apiKeys (handleReleaseHistory visit) r db = (HttpOK body, db)"
proof -
  assume q: "Get (Query r) ''client_name'' \<noteq> []" "Get (Query r) ''env_name'' \<noteq> []"
    and parsed: "\<forall>x\<in>set (releases db). \<exists>t. Parse layout_RFC3339 (updated_at x) = Inr t"
  from last_update_parsed [where Parse = Parse, OF alive parsed] obtain t where
    "GetLastClientEnvUpdate Parse db (Get (Query r) ''client_name'') (Get (Query r) ''env_name'') = Inr t"
    by blast
  with q alive show "\<exists>body. api_route apiKeys (handleCurrentReleases Parse) r db = (HttpOK body, db)"
    unfolding middleware_admin [OF k valid kne shape]
    by (simp add: handleCurrentReleases_def Let_def GetCurrentReleasesFiltered_def Ping_def)
next
  assume "Get (Vars r) ''client'' \<noteq> []" "Get (Vars r) ''env'' \<noteq> []"
    "Get (Vars r) ''namespace'' \<noteq> []" "Get (Vars r) ''workload'' \<noteq> []"
    "Get (Vars r) ''container'' \<noteq> []"
  with alive show "\<exists>body. api_route apiKeys (handleReleaseHistory visit) r db = (HttpOK body, db)"
    unfolding middleware_admin [OF k valid kne shape]
    by (simp add: handleReleaseHistory_def Let_def GetReleaseHistory_def)
qed

lemma badge_other_client_denied:
  assumes valid: "k \<in> set apiKeys" and shape: "tenant_shape k A s" and other: "B \<noteq> A"
  shows "handleBadgeWithAuth apiKeys db k B e wk wn c = CreateErrorBadge e ''access denied''"
proof -
  from valid have ne: "length apiKeys > 0" by auto
  from shape have p: "parseAPIKey k = (A, s, False)" by (rule parse_tenant)
  from shape have kne: "k \<noteq> []" and rebuilt: "A @ ''-'' @ s = k"
    by (auto simp: tenant_shape_def)
  from valid rebuilt have ok: "validateAPIKeyAccess apiKeys A s False"
    by (simp add: validateAPIKeyAccess_def isValidAPIKey_iff)
  show ?thesis using ne p kne ok other by (simp add: handleBadgeWithAuth_def)
qed

lemma badges_denied_is_not_not_found:
  "CreateErrorBadge e ''access denied'' \<noteq> CreateNotFoundBadge e"
  by (simp add: CreateErrorBadge_def CreateNotFoundBadge_def)

text \<open>
  C5 (the code at the failing input). The manual collection handler has no tenant check:
  a PUT that carries the valid tenant-scoped key of client alpha and names client beta in
  its body is answered 200, and a fact of client beta is stored.
\<close>

theorem tenant_key_writes_other_client:
  "parseAPIKey c5_alpha_key = (''alpha'', ''0123456789abcdef0123456789abcdef'', False) \<and>
   validateAPIKeyAccess [c5_alpha_key] ''alpha'' ''0123456789abcdef0123456789abcdef'' False \<and>
   reqClientName c5_body = ''beta'' \<and>
   fst (api_route [c5_alpha_key] (handleManualCollect master_config (utc 20) (Some c5_body))
          c5_put empty_db) = HttpOK c5_saved \<and>
   map ClientName (releases (snd (api_route [c5_alpha_key]
          (handleManualCollect master_config (utc 20) (Some c5_body)) c5_put empty_db)))
     = [''beta'']"
  by code_simp

theorem tenant_key_writes_other_client_witness:
  "fst (api_route [c5_alpha_key] (handleManualCollect master_config (utc 20) (Some c5_body))
          c5_put empty_db) = HttpOK c5_saved"
  using tenant_key_writes_other_client by blast

section \<open>Properties of the sync agent\<close>

lemma delete_by_id:
  assumes inj: "inj_on ID (insert p (set rows))"
  shows "filter (\<lambda>r. ID r \<noteq> ID p) rows = filter (\<lambda>r. r \<noteq> p) rows"
proof (rule filter_cong)
  fix r assume "r \<in> set rows"
  then have "r \<in> insert p (set rows)" "p \<in> insert p (set rows)" by simp_all
  with inj have "ID r = ID p \<Longrightarrow> r = p" unfolding inj_on_def by blast
  then show "(ID r \<noteq> ID p) = (r \<noteq> p)" by blast
qed simp

text \<open>
  A push succeeds exactly when the request could be built and the master answered 200:
  a marshalling error, a refused URL, a refused proxy URL, no response and every other
  status code are failures.
\<close>

lemma syncSingleRelease_succeeds_iff:
  "syncSingleRelease w c e = None \<longleftrightarrow> accepted_by_master w c e"
  by (auto simp: syncSingleRelease_def accepted_by_master_def split: option.splits sum.splits)

lemma sync_loop_pending:
  assumes alive: "conn_err db = None"
    and inj: "inj_on ID (set ps \<union> set (pending_releases db))"
  shows "sync_loop w c ps db =
     db\<lparr>pending_releases :=
          filter (\<lambda>e. \<not> (e \<in> set ps \<and> syncSingleRelease w c e = None)) (pending_releases db)\<rparr>"
  using alive inj
proof (induction ps arbitrary: db)
  case Nil
  then show ?case by simp
next
  case (Cons p ps)
  from Cons.prems(2) have inj_rest: "inj_on ID (set ps \<union> set (pending_releases db))"
    by (rule inj_on_subset) auto
  show ?case
  proof (cases "syncSingleRelease w c p")
    case (Some err)
    have "filter (\<lambda>e. \<not> (e \<in> set ps \<and> syncSingleRelease w c e = None)) (pending_releases db)
        = filter (\<lambda>e. \<not> (e \<in> set (p # ps) \<and> syncSingleRelease w c e = None)) (pending_releases db)"
      using Some by (intro filter_cong) auto
    with Some Cons.IH [OF Cons.prems(1) inj_rest] show ?thesis by simp
  next
    case None
    define db' where "db' = db\<lparr>pending_releases := filter (\<lambda>r. ID r \<noteq> ID p) (pending_releases db)\<rparr>"
    have del: "DeletePendingRelease (ID p) db = Inr db'"
      using Cons.prems(1) by (simp add: DeletePendingRelease_def db'_def)
    have alive': "conn_err db' = None" using Cons.prems(1) by (simp add: db'_def)
    from Cons.prems(2) have "inj_on ID (insert p (set (pending_releases db)))"
      by (rule inj_on_subset) auto
    then have rows': "pending_releases db' = filter (\<lambda>r. r \<noteq> p) (pending_releases db)"
      unfolding db'_def by (simp add: delete_by_id)
    have inj': "inj_on ID (set ps \<union> set (pending_releases db'))"
      using inj_rest by (rule inj_on_subset) (auto simp: rows')
    have "filter (\<lambda>e. \<not> (e \<in> set ps \<and> syncSingleRelease w c e = None)) (pending_releases db')
        = filter (\<lambda>e. \<not> (e \<in> set (p # ps) \<and> syncSingleRelease w c e = None)) (pending_releases db)"
      unfolding rows' filter_filter using None by (intro filter_cong) auto
    with None del Cons.IH [OF alive' inj'] show ?thesis by (simp add: db'_def)
  qed
qed

text \<open>
  C6. On a reachable store whose outbox rows have unique ids, a sync cycle returns no
  error and deletes exactly the outbox entries that were enumerated (non-empty digest) and
  accepted by the master: the request for the entry could be built and was answered with
  the status 200. Every other entry stays in the outbox as it was. In particular an entry
  whose request got no response, or a response with another status, stays, and an entry
  is deleted only after a response 200 to its own request; whether an entry stays
  depends on its own push only, not on the outcome or the position of any other entry.
\<close>

theorem sync_deletes_exactly_the_delivered:
  assumes alive: "conn_err db = None"
    and ids: "distinct (map ID (pending_releases db))"
  shows "\<exists>db'. SyncPendingReleases w c db = (None, db') \<and>
     db' = db\<lparr>pending_releases :=
              filter (\<lambda>e. \<not> (ImageSHA e \<noteq> [] \<and> accepted_by_master w c e)) (pending_releases db)\<rparr> \<and>
     (\<forall>e\<in>set (pending_releases db).
         client_Do w (sync_request c e) \<noteq> Inr StatusOK \<longrightarrow> e \<in> set (pending_releases db')) \<and>
     (\<forall>e\<in>set (pending_releases db).
         e \<notin> set (pending_releases db') \<longrightarrow> client_Do w (sync_request c e) = Inr StatusOK)"
proof -
  define ps where "ps = sort_key created_at (filter (\<lambda>r. length (ImageSHA r) > 0) (pending_releases db))"
  define db' where "db' = db\<lparr>pending_releases :=
      filter (\<lambda>e. \<not> (ImageSHA e \<noteq> [] \<and> accepted_by_master w c e)) (pending_releases db)\<rparr>"
  have get: "GetPendingReleases db = Inr ps"
    using alive by (simp add: GetPendingReleases_def ps_def)
  have set_ps: "set ps = {e \<in> set (pending_releases db). ImageSHA e \<noteq> []}"
    by (auto simp: ps_def)
  from ids have "inj_on ID (set (pending_releases db))" by (simp add: distinct_map)
  then have inj: "inj_on ID (set ps \<union> set (pending_releases db))"
    by (rule inj_on_subset) (auto simp: set_ps)
  have eq: "filter (\<lambda>e. \<not> (e \<in> set ps \<and> syncSingleRelease w c e = None)) (pending_releases db)
      = filter (\<lambda>e. \<not> (ImageSHA e \<noteq> [] \<and> accepted_by_master w c e)) (pending_releases db)"
    by (intro filter_cong) (auto simp: set_ps syncSingleRelease_succeeds_iff)
  have loop: "sync_loop w c ps db = db'"
    using sync_loop_pending [OF alive inj, of w c] unfolding eq db'_def .
  have run: "SyncPendingReleases w c db = (None, db')"
  proof (cases "ps = []")
    case True
    with loop have "db' = db" by simp
    with True get show ?thesis by (simp add: SyncPendingReleases_def)
  next
    case False
    with get loop show ?thesis by (simp add: SyncPendingReleases_def)
  qed
  have rows': "pending_releases db' =
      filter (\<lambda>e. \<not> (ImageSHA e \<noteq> [] \<and> accepted_by_master w c e)) (pending_releases db)"
    by (simp add: db'_def)
  have stays: "\<forall>e\<in>set (pending_releases db).
      client_Do w (sync_request c e) \<noteq> Inr StatusOK \<longrightarrow> e \<in> set (pending_releases db')"
    unfolding rows' by (simp add: accepted_by_master_def)
  have gone: "\<forall>e\<in>set (pending_releases db).
      e \<notin> set (pending_releases db') \<longrightarrow> client_Do w (sync_request c e) = Inr StatusOK"
    unfolding rows' by (simp add: accepted_by_master_def)
  from run stays gone show ?thesis unfolding db'_def by blast
qed

lemma c6_pushes:
  "map (\<lambda>e. client_Do (c6_answers answer) (sync_request c6_client e)) (pending_releases c6_outbox)
     = [Inr 200, answer, Inr 200]"
  by (simp add: c6_answers_def c6_outbox_def c6_entry_def mk_release_def sync_request_def
      sync_body_def empty_db_def)

lemma c6_left:
  assumes "answer \<noteq> Inr StatusOK"
  shows "filter (\<lambda>e. \<not> (ImageSHA e \<noteq> [] \<and> accepted_by_master (c6_answers answer) c6_client e))
           (pending_releases c6_outbox) = [c6_entry 2 ''sha256:bbb'']"
  using assms
  by (simp add: c6_answers_def c6_outbox_def c6_entry_def mk_release_def sync_request_def
      sync_body_def empty_db_def accepted_by_master_def c6_client_def StatusOK_def)

theorem sync_deletes_exactly_the_delivered_witness:
  "conn_err c6_outbox = None \<and>
   distinct (map ID (pending_releases c6_outbox)) \<and>
   map (\<lambda>e. client_Do (c6_answers (Inl ''timeout'')) (sync_request c6_client e))
       (pending_releases c6_outbox) = [Inr 200, Inl ''timeout'', Inr 200] \<and>
   SyncPendingReleases (c6_answers (Inl ''timeout'')) c6_client c6_outbox
     = (None, c6_outbox\<lparr>pending_releases := [c6_entry 2 ''sha256:bbb'']\<rparr>) \<and>
   map (\<lambda>e. client_Do (c6_answers (Inr 500)) (sync_request c6_client e))
       (pending_releases c6_outbox) = [Inr 200, Inr 500, Inr 200] \<and>
   SyncPendingReleases (c6_answers (Inr 500)) c6_client c6_outbox
     = (None, c6_outbox\<lparr>pending_releases := [c6_entry 2 ''sha256:bbb'']\<rparr>)"
proof -
  have h1: "conn_err c6_outbox = None" by (simp add: c6_outbox_def empty_db_def)
  have h2: "distinct (map ID (pending_releases c6_outbox))"
    by (simp add: c6_outbox_def c6_entry_def mk_release_def)
  have no: "Inl ''timeout'' \<noteq> (Inr StatusOK :: error + nat)" "Inr 500 \<noteq> (Inr StatusOK :: error + nat)"
    by (simp_all add: StatusOK_def)
  from sync_deletes_exactly_the_delivered [OF h1 h2, of "c6_answers (Inl ''timeout'')" c6_client]
  have a: "SyncPendingReleases (c6_answers (Inl ''timeout'')) c6_client c6_outbox
     = (None, c6_outbox\<lparr>pending_releases := [c6_entry 2 ''sha256:bbb'']\<rparr>)"
    unfolding c6_left [OF no(1)] by blast
  from sync_deletes_exactly_the_delivered [OF h1 h2, of "c6_answers (Inr 500)" c6_client]
  have b: "SyncPendingReleases (c6_answers (Inr 500)) c6_client c6_outbox
     = (None, c6_outbox\<lparr>pending_releases := [c6_entry 2 ''sha256:bbb'']\<rparr>)"
    unfolding c6_left [OF no(2)] by blast
  from h1 h2 c6_pushes [of "Inl ''timeout''"] c6_pushes [of "Inr 500"] a b show ?thesis by blast
qed

section \<open>Properties of the liveness status\<close>

lemma status_of_age_Sub:
  "status_of_age (Sub now t) =
     (if now - t \<le> 10 * Minute then ''online''
      else if now - t \<le> 15 * Minute then ''warning'' else ''offline'')"
  by (simp add: status_of_age_def Sub_def Let_def maxDuration_def minDuration_def Minute_def Second_def)

lemma find_unique:
  assumes d: "distinct (map f xs)" and p: "p \<in> set xs"
  shows "find (\<lambda>x. f x = f p) xs = Some p"
  using d p
proof (induction xs)
  case Nil
  then show ?case by simp
next
  case (Cons x xs)
  show ?case
  proof (cases "x = p")
    case True
    then show ?thesis by simp
  next
    case False
    with Cons.prems have "p \<in> set xs" by simp
    then have "f p \<in> set (map f xs)" by simp
    with Cons.prems(1) have "f x \<noteq> f p" by auto
    with Cons \<open>p \<in> set xs\<close> show ?thesis by simp
  qed
qed

lemma find_ping:
  assumes d: "distinct (map ping_key (slave_pings db))" and p: "p \<in> set (slave_pings db)"
  shows "find (\<lambda>x. spClientName x = spClientName p \<and> spEnvName x = spEnvName p) (slave_pings db) = Some p"
proof -
  have "(\<lambda>x. spClientName x = spClientName p \<and> spEnvName x = spEnvName p) = (\<lambda>x. ping_key x = ping_key p)"
    by (auto simp: ping_key_def)
  with find_unique [OF d p] show ?thesis by simp
qed

lemma find_no_ping:
  assumes "(clientName, envName) \<notin> set (map ping_key (slave_pings db))"
  shows "find (\<lambda>x. spClientName x = clientName \<and> spEnvName x = envName) (slave_pings db) = None"
  using assms by (auto simp: find_None_iff ping_key_def)

lemma find_ignores_status:
  "find (\<lambda>x. spClientName x = c \<and> spEnvName x = e) (map (\<lambda>p. p\<lparr>spStatus := g p\<rparr>) ps)
     = map_option (\<lambda>p. p\<lparr>spStatus := g p\<rparr>) (find (\<lambda>x. spClientName x = c \<and> spEnvName x = e) ps)"
  by (induction ps) auto

text \<open>
  C7. The reported liveness status is "unknown" when the lookup fails, "never" when the
  tenant has no heartbeat row, and otherwise the classification of the specification
  applied to the clock and the stored last_ping_time: "online" up to 10 minutes of age,
  "warning" up to 15 minutes, "offline" beyond. Rewriting the stored status column in any
  way does not change the reported status.
\<close>

theorem liveness_computed_at_read_time:
  "(conn_err db = Some msg \<longrightarrow> pi_status (ping_info now db clientName envName) = ''unknown'') \<and>
   (conn_err db = None \<and> (clientName, envName) \<notin> set (map ping_key (slave_pings db)) \<longrightarrow>
      pi_status (ping_info now db clientName envName) = ''never'' \<and>
      pi_status (ping_info now db clientName envName) = spec_liveness now None) \<and>
   (conn_err db = None \<and> distinct (map ping_key (slave_pings db)) \<and> p \<in> set (slave_pings db) \<longrightarrow>
      GetSlavePingStatus now db (spClientName p) (spEnvName p)
        = Inr (spec_liveness now (Some (spLastPingTime p)), spLastPingTime p) \<and>
      pi_status (ping_info now db (spClientName p) (spEnvName p))
        = spec_liveness now (Some (spLastPingTime p)) \<and>
      pi_status (ping_info now db (spClientName p) (spEnvName p))
        = (if now - spLastPingTime p \<le> 10 * Minute then ''online''
           else if now - spLastPingTime p \<le> 15 * Minute then ''warning'' else ''offline'')) \<and>
   pi_status (ping_info now (db\<lparr>slave_pings := map (\<lambda>q. q\<lparr>spStatus := g q\<rparr>) (slave_pings db)\<rparr>)
                clientName envName)
     = pi_status (ping_info now db clientName envName)"
proof (intro conjI impI)
  assume "conn_err db = Some msg"
  then show "pi_status (ping_info now db clientName envName) = ''unknown''"
    by (simp add: ping_info_def GetSlavePingStatus_def)
next
  assume h: "conn_err db = None \<and> (clientName, envName) \<notin> set (map ping_key (slave_pings db))"
  then have "find (\<lambda>x. spClientName x = clientName \<and> spEnvName x = envName) (slave_pings db) = None"
    using find_no_ping by blast
  with h show n: "pi_status (ping_info now db clientName envName) = ''never''"
    by (simp add: ping_info_def GetSlavePingStatus_def)
  then show "pi_status (ping_info now db clientName envName) = spec_liveness now None"
    by (simp add: spec_liveness_def)
next
  assume h: "conn_err db = None \<and> distinct (map ping_key (slave_pings db)) \<and> p \<in> set (slave_pings db)"
  then have f: "find (\<lambda>x. spClientName x = spClientName p \<and> spEnvName x = spEnvName p) (slave_pings db) = Some p"
    using find_ping by blast
  with h show g: "GetSlavePingStatus now db (spClientName p) (spEnvName p)
        = Inr (spec_liveness now (Some (spLastPingTime p)), spLastPingTime p)"
    by (simp add: GetSlavePingStatus_def status_of_age_Sub spec_liveness_def)
  then show s: "pi_status (ping_info now db (spClientName p) (spEnvName p))
        = spec_liveness now (Some (spLastPingTime p))"
    by (simp add: ping_info_def)
  then show "pi_status (ping_info now db (spClientName p) (spEnvName p))
        = (if now - spLastPingTime p \<le> 10 * Minute then ''online''
           else if now - spLastPingTime p \<le> 15 * Minute then ''warning'' else ''offline'')"
    by (simp add: spec_liveness_def)
next
  show "pi_status (ping_info now (db\<lparr>slave_pings := map (\<lambda>q. q\<lparr>spStatus := g q\<rparr>) (slave_pings db)\<rparr>)
                clientName envName)
     = pi_status (ping_info now db clientName envName)"
    by (cases "find (\<lambda>x. spClientName x = clientName \<and> spEnvName x = envName) (slave_pings db)")
       (simp_all add: ping_info_def GetSlavePingStatus_def find_ignores_status split: option.splits)
qed

text \<open>
  A heartbeat always stores the status "online"; twenty minutes later the reported status
  is "offline" although the stored column still says "online".
\<close>

lemma stored_status_is_not_reported:
  "map spStatus (slave_pings (projr (UpsertSlavePing (1000 * Second) ''alpha'' ''live'' ''1.4.2''
       empty_db))) = [''online''] \<and>
   pi_status (ping_info (1000 * Second + 20 * Minute)
       (projr (UpsertSlavePing (1000 * Second) ''alpha'' ''live'' ''1.4.2'' empty_db))
       ''alpha'' ''live'') = ''offline''"
  by code_simp

theorem liveness_computed_at_read_time_witness:
  "conn_err c7_pings = None \<and>
   distinct (map ping_key (slave_pings c7_pings)) \<and>
   c7_ping \<in> set (slave_pings c7_pings) \<and>
   pi_status (ping_info (1000 * Second + 9 * Minute) c7_pings ''alpha'' ''live'') = ''online'' \<and>
   pi_status (ping_info (1000 * Second + 12 * Minute) c7_pings ''alpha'' ''live'') = ''warning'' \<and>
   pi_status (ping_info (1000 * Second + 20 * Minute) c7_pings ''alpha'' ''live'') = ''offline'' \<and>
   (''beta'', ''live'') \<notin> set (map ping_key (slave_pings c7_pings)) \<and>
   pi_status (ping_info (1000 * Second + 20 * Minute) c7_pings ''beta'' ''live'') = ''never'' \<and>
   pi_status (ping_info (1000 * Second + 9 * Minute) (c7_pings\<lparr>conn_err := Some ''disk I/O error''\<rparr>)
                ''alpha'' ''live'') = ''unknown''"
proof -
  have h1: "conn_err c7_pings = None" by (simp add: c7_pings_def empty_db_def)
  have h2: "distinct (map ping_key (slave_pings c7_pings))" by (simp add: c7_pings_def)
  have h3: "c7_ping \<in> set (slave_pings c7_pings)" by (simp add: c7_pings_def)
  have h4: "(''beta'', ''live'') \<notin> set (map ping_key (slave_pings c7_pings))"
    by (simp add: c7_pings_def c7_ping_def ping_key_def)
  have h5: "conn_err (c7_pings\<lparr>conn_err := Some ''disk I/O error''\<rparr>) = Some ''disk I/O error''"
    by simp
  have who: "spClientName c7_ping = ''alpha''" "spEnvName c7_ping = ''live''"
    "spLastPingTime c7_ping = 1000 * Second"
    by (simp_all add: c7_ping_def)
  have st: "pi_status (ping_info now c7_pings ''alpha'' ''live'')
      = (if now - 1000 * Second \<le> 10 * Minute then ''online''
         else if now - 1000 * Second \<le> 15 * Minute then ''warning'' else ''offline'')" for now
    using liveness_computed_at_read_time [where db = c7_pings and p = c7_ping and now = now] h1 h2 h3
    unfolding who by blast
  have a: "pi_status (ping_info (1000 * Second + 9 * Minute) c7_pings ''alpha'' ''live'') = ''online''"
    unfolding st by (simp add: Minute_def Second_def)
  have b: "pi_status (ping_info (1000 * Second + 12 * Minute) c7_pings ''alpha'' ''live'') = ''warning''"
    unfolding st by (simp add: Minute_def Second_def)
  have c: "pi_status (ping_info (1000 * Second + 20 * Minute) c7_pings ''alpha'' ''live'') = ''offline''"
    unfolding st by (simp add: Minute_def Second_def)
  have d: "pi_status (ping_info (1000 * Second + 20 * Minute) c7_pings ''beta'' ''live'') = ''never''"
    using liveness_computed_at_read_time [where db = c7_pings and clientName = "''beta''"
        and envName = "''live''" and now = "1000 * Second + 20 * Minute"] h1 h4
    by blast
  have e: "pi_status (ping_info (1000 * Second + 9 * Minute) (c7_pings\<lparr>conn_err := Some ''disk I/O error''\<rparr>)
                ''alpha'' ''live'') = ''unknown''"
    using liveness_computed_at_read_time [where db = "c7_pings\<lparr>conn_err := Some ''disk I/O error''\<rparr>"
        and msg = "''disk I/O error''" and clientName = "''alpha''" and envName = "''live''"
        and now = "1000 * Second + 9 * Minute"] h5
    by blast
  from h1 h2 h3 a b c h4 d e show ?thesis by blast
qed

end
